theory Spec2Isabelle
  imports Complex_Main "HOL-Library.Monad_Syntax"
begin

section \<open>Strings and numbers of the source language\<close>

text \<open>
  The sources are TypeScript. A string is modelled as a \<^typ>\<open>string\<close> whose characters stand
  for the UTF-16 code units below 256; case mapping and white space are those of that
  range. A number is modelled as an exact rational (\<^typ>\<open>rat\<close>), or as an integer where the
  source only produces integers: the doubles of the source are exact on the integers and
  halves of screen coordinates. An optional property (\<open>undefined\<close> when absent) is an
  \<^typ>\<open>'a option\<close>.
\<close>

definition dquote :: string where
  "dquote = [CHR 0x22]"

definition newline :: string where
  "newline = [CHR 0x0A]"

definition isSpace :: "char \<Rightarrow> bool" where
  \<comment> \<open>white space and line terminators, as \<open>String.prototype.trim\<close> and \<open>\s\<close> see them\<close>
  "isSpace c = (c = CHR 0x09 \<or> c = CHR 0x0A \<or> c = CHR 0x0B \<or> c = CHR 0x0C \<or> c = CHR 0x0D
     \<or> c = CHR 0x20 \<or> c = CHR 0xA0)"

definition isLineTerminator :: "char \<Rightarrow> bool" where
  \<comment> \<open>the characters that \<open>.\<close> of a regular expression does not match\<close>
  "isLineTerminator c = (c = CHR 0x0A \<or> c = CHR 0x0D)"

definition isDigit :: "char \<Rightarrow> bool" where
  \<comment> \<open>\<open>\d\<close>\<close>
  "isDigit c = (let n = (of_char c :: nat) in 48 \<le> n \<and> n \<le> 57)"

definition toLowerChar :: "char \<Rightarrow> char" where
  "toLowerChar c = (let n = (of_char c :: nat) in
     if (65 \<le> n \<and> n \<le> 90) \<or> (192 \<le> n \<and> n \<le> 222 \<and> n \<noteq> 215)
     then Char (digit0 c) (digit1 c) (digit2 c) (digit3 c) (digit4 c) True (digit6 c) (digit7 c)
     else c)"

definition toLowerCase :: "string \<Rightarrow> string" where
  "toLowerCase s = map toLowerChar s"

definition trim :: "string \<Rightarrow> string" where
  "trim s = rev (dropWhile isSpace (rev (dropWhile isSpace s)))"

fun startsWith :: "string \<Rightarrow> string \<Rightarrow> bool" where
  "startsWith s [] = True"
| "startsWith [] (p # ps) = False"
| "startsWith (c # cs) (p # ps) = (c = p \<and> startsWith cs ps)"

fun str_includes :: "string \<Rightarrow> string \<Rightarrow> bool" where
  \<comment> \<open>\<open>s.includes(sub)\<close>\<close>
  "str_includes [] sub = (sub = [])"
| "str_includes (c # cs) sub = (startsWith (c # cs) sub \<or> str_includes cs sub)"

fun replace_first :: "string \<Rightarrow> string \<Rightarrow> string \<Rightarrow> string" where
  \<comment> \<open>\<open>s.replace(pat, rep)\<close> with a string pattern: the first occurrence only\<close>
  "replace_first [] pat rep = (if pat = [] then rep else [])"
| "replace_first (c # cs) pat rep =
     (if startsWith (c # cs) pat then rep @ drop (length pat) (c # cs)
      else c # replace_first cs pat rep)"

fun split_on :: "char \<Rightarrow> string \<Rightarrow> string list" where
  \<comment> \<open>\<open>s.split(sep)\<close> with a one-character separator\<close>
  "split_on sep [] = [[]]"
| "split_on sep (c # cs) =
     (if c = sep then [] # split_on sep cs
      else (case split_on sep cs of [] \<Rightarrow> [[c]] | w # ws \<Rightarrow> (c # w) # ws))"

fun join :: "string \<Rightarrow> string list \<Rightarrow> string" where
  \<comment> \<open>\<open>xs.join(sep)\<close>\<close>
  "join sep [] = []"
| "join sep [x] = x"
| "join sep (x # y # ys) = x @ sep @ join sep (y # ys)"

definition truthy :: "string option \<Rightarrow> bool" where
  \<comment> \<open>an optional string in a condition: \<open>undefined\<close> and \<open>""\<close> are falsy\<close>
  "truthy v = (case v of None \<Rightarrow> False | Some s \<Rightarrow> s \<noteq> [])"

definition or_else :: "string option \<Rightarrow> string option \<Rightarrow> string option" where
  \<comment> \<open>\<open>a || b\<close> on optional strings\<close>
  "or_else a b = (if truthy a then a else b)"

definition or_default :: "string option \<Rightarrow> string \<Rightarrow> string" where
  \<comment> \<open>\<open>a || "lit"\<close>\<close>
  "or_default a d = (case a of None \<Rightarrow> d | Some s \<Rightarrow> if s \<noteq> [] then s else d)"

definition digitValue :: "char \<Rightarrow> nat" where
  "digitValue c = of_char c - 48"

definition Number_digits :: "string \<Rightarrow> nat" where
  \<comment> \<open>\<open>Number(s)\<close> and \<open>parseInt(s, 10)\<close> on a string of decimal digits\<close>
  "Number_digits s = foldl (\<lambda>acc c. 10 * acc + digitValue c) 0 s"



section \<open>Errors, messages and native commands\<close>

text \<open>
  A template literal that interpolates a number, a time or a JSON document is kept as its
  list of parts, so that no number is rendered in the model; a template of strings only
  is one \<open>Lit\<close>.
\<close>

datatype json =
    JUndefined
  | JStr string
  | JNum rat
  | JBool bool
  | JArr "json list"
  | JObj "(string \<times> json) list"

datatype part =
    Lit string
  | Num rat
  | Stringify json
  | StringifyPretty json
  | FormatBytes nat

type_synonym message = "part list"

datatype error =
    ActionableError message
  | Error message

text \<open>An argument of the \<open>adb\<close> command line: a string, a rendered number, or a rendered time.\<close>

datatype arg =
    Str string
  | NumStr rat
  | TimeStr int

section \<open>The data model\<close>

text \<open>
  Modelled from the spec: the types \<open>ScreenSize\<close>, \<open>ScreenElementRect\<close> and \<open>ScreenElement\<close>, which
  \<open>android.ts\<close> and \<open>server.ts\<close> import from \<open>robot.ts\<close>; that file is not among the
  sources. The fields are those the two files read and write, optional where the
  specification (section 3) says so. The class \<open>ActionableError\<close> of the same file is the
  first constructor of \<open>error\<close> above.
\<close>

record ScreenSize =
  size_width :: int
  size_height :: int
  size_scale :: int

record ScreenElementRect =
  rect_x :: rat
  rect_y :: rat
  rect_width :: rat
  rect_height :: rat

record ScreenElement =
  el_type :: string
  el_text :: "string option"
  el_label :: string
  el_name :: "string option"
  el_value :: "string option"
  el_identifier :: "string option"
  el_rect :: ScreenElementRect
  el_focused :: "bool option"

section \<open>\<open>android.ts\<close>: the accessibility tree\<close>

record UiAutomatorXmlAttrs =
  node_class :: "string option"
  node_text :: "string option"
  node_bounds :: "string option"
  node_hint :: "string option"
  node_focused :: "string option"
  node_clickable :: "string option"
  node_focusable :: "string option"
  node_content_desc :: "string option"
  node_resource_id :: "string option"

text \<open>
  The property \<open>node\<close> of a parsed node is absent, one node, or an array of nodes
  (\<open>Array.isArray\<close> tells the last two apart).
\<close>

datatype 'a child_field = NoChild | OneChild 'a | ManyChildren "'a list"

datatype UiAutomatorXmlNode = XmlNode UiAutomatorXmlAttrs "UiAutomatorXmlNode child_field"

subsection \<open>\<open>getScreenElementRect\<close>\<close>

definition expect :: "string \<Rightarrow> string \<Rightarrow> string option" where
  \<comment> \<open>a literal of the pattern: the rest of the input behind it\<close>
  "expect lit s = (if startsWith s lit then Some (drop (length lit) s) else None)"

definition digits1 :: "string \<Rightarrow> (string \<times> string) option" where
  \<comment> \<open>\<open>(\d+)\<close>: the longest run of digits, which must not be empty, and the rest\<close>
  "digits1 s = (if takeWhile isDigit s = [] then None
     else Some (takeWhile isDigit s, dropWhile isDigit s))"

definition matchBounds :: "string \<Rightarrow> (string \<times> string \<times> string \<times> string) option" where
  \<comment> \<open>\<open>bounds.match(/^\[(\d+),(\d+)\]\[(\d+),(\d+)\]$/)\<close>: the four groups\<close>
  "matchBounds s = do {
     s1 \<leftarrow> expect ''['' s;
     (left, s2) \<leftarrow> digits1 s1;
     s3 \<leftarrow> expect '','' s2;
     (top', s4) \<leftarrow> digits1 s3;
     s5 \<leftarrow> expect '']['' s4;
     (right, s6) \<leftarrow> digits1 s5;
     s7 \<leftarrow> expect '','' s6;
     (bottom, s8) \<leftarrow> digits1 s7;
     s9 \<leftarrow> expect '']'' s8;
     if s9 = [] then Some (left, top', right, bottom) else None
   }"

definition String_of :: "string option \<Rightarrow> string" where
  \<comment> \<open>\<open>String(v)\<close>\<close>
  "String_of v = (case v of None \<Rightarrow> ''undefined'' | Some s \<Rightarrow> s)"

text \<open>
  When the pattern does not match, the source returns the rect whose \<open>x\<close> and \<open>y\<close> are
  \<open>undefined\<close> and whose \<open>width\<close> and \<open>height\<close> are \<open>NaN\<close>; that rect is \<open>None\<close> here, and
  every comparison with one of its fields is false.
\<close>

definition getScreenElementRect :: "UiAutomatorXmlAttrs \<Rightarrow> ScreenElementRect option" where
  "getScreenElementRect node =
     (case matchBounds (String_of (node_bounds node)) of
        None \<Rightarrow> None
      | Some (left, top', right, bottom) \<Rightarrow>
          Some \<lparr> rect_x = of_nat (Number_digits left),
                 rect_y = of_nat (Number_digits top'),
                 rect_width = of_nat (Number_digits right) - of_nat (Number_digits left),
                 rect_height = of_nat (Number_digits bottom) - of_nat (Number_digits top') \<rparr>)"

subsection \<open>\<open>collectElements\<close>\<close>

definition hasTextOrLabel :: "UiAutomatorXmlAttrs \<Rightarrow> bool" where
  "hasTextOrLabel node = (truthy (node_text node) \<or> truthy (node_content_desc node)
     \<or> truthy (node_hint node) \<or> truthy (node_resource_id node))"

definition isInteractive :: "UiAutomatorXmlAttrs \<Rightarrow> bool" where
  "isInteractive node = (node_clickable node = Some ''true'' \<or> node_focusable node = Some ''true''
     \<or> (case node_class node of
           None \<Rightarrow> False
         | Some c \<Rightarrow> c \<noteq> [] \<and> (str_includes c ''Button'' \<or> str_includes c ''ImageView''
             \<or> str_includes c ''ImageButton'' \<or> str_includes c ''View'')))"

definition positiveArea :: "ScreenElementRect option \<Rightarrow> bool" where
  \<comment> \<open>\<open>element.rect.width > 0 && element.rect.height > 0\<close>\<close>
  "positiveArea r = (case r of None \<Rightarrow> False | Some rect \<Rightarrow> 0 < rect_width rect \<and> 0 < rect_height rect)"

definition nodeElements :: "UiAutomatorXmlAttrs \<Rightarrow> ScreenElement list" where
  \<comment> \<open>the part of \<open>collectElements\<close> behind the children: what the node itself pushes\<close>
  "nodeElements node =
     (if hasTextOrLabel node \<or> isInteractive node then
        (case getScreenElementRect node of
           None \<Rightarrow> []
         | Some rect \<Rightarrow>
             if positiveArea (Some rect) then
               [\<lparr> el_type = or_default (node_class node) ''element'',
                   el_text = node_text node,
                   el_label = or_default (or_else (node_content_desc node) (node_hint node)) [],
                   el_name = None,
                   el_value = None,
                   el_identifier = (case node_resource_id node of
                                      None \<Rightarrow> None
                                    | Some r \<Rightarrow> if r \<noteq> [] then Some r else None),
                   el_rect = rect,
                   el_focused = (if node_focused node = Some ''true'' then Some True else None) \<rparr>]
             else [])
      else [])"

fun collectElements :: "UiAutomatorXmlNode \<Rightarrow> ScreenElement list" where
  "collectElements (XmlNode node NoChild) = nodeElements node"
| "collectElements (XmlNode node (OneChild childNode)) =
     collectElements childNode @ nodeElements node"
| "collectElements (XmlNode node (ManyChildren childNodes)) =
     concat (map collectElements childNodes) @ nodeElements node"

text \<open>The nodes of a tree, every node behind its descendants (the order of the traversal).\<close>

fun postorder :: "UiAutomatorXmlNode \<Rightarrow> UiAutomatorXmlAttrs list" where
  "postorder (XmlNode node NoChild) = [node]"
| "postorder (XmlNode node (OneChild childNode)) = postorder childNode @ [node]"
| "postorder (XmlNode node (ManyChildren childNodes)) =
     concat (map postorder childNodes) @ [node]"


definition noAttrs :: UiAutomatorXmlAttrs where
  "noAttrs = \<lparr> node_class = None, node_text = None, node_bounds = None, node_hint = None,
     node_focused = None, node_clickable = None, node_focusable = None,
     node_content_desc = None, node_resource_id = None \<rparr>"





section \<open>\<open>android.ts\<close>: gestures\<close>

text \<open>
  Both operations first await \<open>getScreenSize\<close>; its result is the first argument here. The
  value is the argument vector handed to \<open>adb\<close>, or the error thrown before \<open>adb\<close> is
  reached. The width and height of a screen are integers; on the integers a screen can
  have, the products with \<open>0.80\<close>, \<open>0.20\<close>, \<open>0.50\<close> and \<open>0.3\<close> round down to the same integer in
  doubles as in the rationals.
\<close>

definition ToInt32 :: "int \<Rightarrow> int" where
  "ToInt32 n = (n + 2 ^ 31) mod 2 ^ 32 - 2 ^ 31"

definition shr1 :: "int \<Rightarrow> int" where
  \<comment> \<open>\<open>n >> 1\<close>\<close>
  "shr1 n = ToInt32 n div 2"

definition Math_floor :: "rat \<Rightarrow> int" where
  "Math_floor q = \<lfloor>q\<rfloor>"

definition unsupportedDirection :: "string \<Rightarrow> error" where
  "unsupportedDirection direction =
     ActionableError [Lit (''Swipe direction '' @ dquote @ direction @ dquote @ '' is not supported'')]"

definition inputSwipe :: "rat \<Rightarrow> rat \<Rightarrow> rat \<Rightarrow> rat \<Rightarrow> arg list" where
  "inputSwipe x0 y0 x1 y1 =
     [Str ''shell'', Str ''input'', Str ''swipe'', NumStr x0, NumStr y0, NumStr x1, NumStr y1, Str ''1000'']"

definition swipe :: "ScreenSize \<Rightarrow> string \<Rightarrow> error + arg list" where
  "swipe screenSize direction =
     (let centerX = shr1 (size_width screenSize);
          w = of_int (size_width screenSize) :: rat;
          h = of_int (size_height screenSize) :: rat
      in if direction = ''up'' then
           Inr (inputSwipe (of_int centerX) (of_int (Math_floor (h * (80 / 100))))
                           (of_int centerX) (of_int (Math_floor (h * (20 / 100)))))
         else if direction = ''down'' then
           Inr (inputSwipe (of_int centerX) (of_int (Math_floor (h * (20 / 100))))
                           (of_int centerX) (of_int (Math_floor (h * (80 / 100)))))
         else if direction = ''left'' then
           Inr (inputSwipe (of_int (Math_floor (w * (80 / 100)))) (of_int (Math_floor (h * (50 / 100))))
                           (of_int (Math_floor (w * (20 / 100)))) (of_int (Math_floor (h * (50 / 100)))))
         else if direction = ''right'' then
           Inr (inputSwipe (of_int (Math_floor (w * (20 / 100)))) (of_int (Math_floor (h * (50 / 100))))
                           (of_int (Math_floor (w * (80 / 100)))) (of_int (Math_floor (h * (50 / 100)))))
         else Inl (unsupportedDirection direction))"






section \<open>\<open>android.ts\<close>: device logs\<close>

record LogOptions =
  opt_timeWindow :: "string option"
  opt_filter :: "string option"
  opt_process :: "string option"

definition valueOf :: "string option \<Rightarrow> string" where
  \<comment> \<open>the string of an optional string that a condition has found truthy\<close>
  "valueOf v = (case v of None \<Rightarrow> [] | Some s \<Rightarrow> s)"

subsection \<open>\<open>parseTimeWindow\<close>\<close>

definition matchTimeWindow :: "string \<Rightarrow> (string \<times> char) option" where
  \<comment> \<open>\<open>timeWindow.match(/^(\d+)([smh])$/)\<close>: the two groups\<close>
  "matchTimeWindow timeWindow =
     (case digits1 timeWindow of
        None \<Rightarrow> None
      | Some (digits, rest) \<Rightarrow>
          (case rest of
             [unit] \<Rightarrow> if unit = CHR ''s'' \<or> unit = CHR ''m'' \<or> unit = CHR ''h''
                       then Some (digits, unit) else None
           | _ \<Rightarrow> None))"

definition parseTimeWindow :: "string \<Rightarrow> nat" where
  "parseTimeWindow timeWindow =
     (case matchTimeWindow timeWindow of
        None \<Rightarrow> 60
      | Some (digits, unit) \<Rightarrow>
          (let value = Number_digits digits
           in if unit = CHR ''s'' then value
              else if unit = CHR ''m'' then value * 60
              else if unit = CHR ''h'' then value * 3600
              else 60))"

subsection \<open>The filter expression\<close>

definition effectiveFilter :: "LogOptions \<Rightarrow> string option" where
  "effectiveFilter options =
     (let filterOpt = opt_filter options; processFilter = opt_process options
      in if truthy processFilter \<and> truthy filterOpt
            \<and> \<not> str_includes (valueOf filterOpt) ''package:''
         then Some (''package:'' @ valueOf processFilter @ '' '' @ valueOf filterOpt)
         else if truthy processFilter \<and> \<not> truthy filterOpt
         then Some (''package:'' @ valueOf processFilter)
         else filterOpt)"

text \<open>
  The pattern \<open>/package:([^\s]+)(?:\s+(.+))?/\<close> is searched from the left. Behind
  \<open>package:\<close> the first group takes the longest run of characters that are not white
  space, at least one. The optional part takes the longest run of white space and then,
  as the second group, the characters up to the next line terminator; when the white
  space runs to the end of the input, it gives characters back from its end until the
  second group can start on one that is no line terminator.
\<close>

definition optionalGroup :: "string \<Rightarrow> string option" where
  "optionalGroup rest =
     (let spaces = takeWhile isSpace rest; behind = dropWhile isSpace rest
      in if spaces = [] then None
         else if behind \<noteq> [] then Some (takeWhile (\<lambda>c. \<not> isLineTerminator c) behind)
         else (case find (\<lambda>c. \<not> isLineTerminator c) (rev (tl spaces)) of
                 None \<Rightarrow> None
               | Some c \<Rightarrow> Some [c]))"

fun packageMatch :: "string \<Rightarrow> (string \<times> string option) option" where
  "packageMatch [] = None"
| "packageMatch (c # cs) =
     (if startsWith (c # cs) ''package:''
         \<and> takeWhile (\<lambda>c. \<not> isSpace c) (drop 8 (c # cs)) \<noteq> []
      then Some (takeWhile (\<lambda>c. \<not> isSpace c) (drop 8 (c # cs)),
                 optionalGroup (dropWhile (\<lambda>c. \<not> isSpace c) (drop 8 (c # cs))))
      else packageMatch cs)"

text \<open>The pair of \<open>packageFilter\<close> and \<open>searchQuery\<close>, both \<open>null\<close> at first.\<close>

definition parseFilter :: "string option \<Rightarrow> string option \<times> string option" where
  "parseFilter effective =
     (if truthy effective then
        (if startsWith (valueOf effective) ''package:mine'' then
           (let query = trim (replace_first (valueOf effective) ''package:mine'' [])
            in (None, if query \<noteq> [] then Some query else None))
         else if str_includes (valueOf effective) ''package:'' then
           (case packageMatch (valueOf effective) of
              None \<Rightarrow> (None, None)
            | Some (group1, group2) \<Rightarrow> (Some group1, if truthy group2 then group2 else None))
         else (None, effective))
      else (None, None))"

subsection \<open>The command line of \<open>logcat\<close>\<close>

text \<open>
  \<open>adb\<close> is the device: a function from the argument vector to the output or the error
  thrown. \<open>now\<close> is \<open>Date.now()\<close>, in milliseconds; the start time is kept as its
  milliseconds, its rendering as \<open>MM-dd HH:mm:ss.mmm\<close> in local time is left to \<open>TimeStr\<close>.
\<close>

function split_ws :: "string \<Rightarrow> string list" where
  \<comment> \<open>\<open>s.split(/\s+/)\<close>\<close>
  "split_ws [] = [[]]"
| "split_ws (c # cs) =
     (if isSpace c then [] # split_ws (dropWhile isSpace cs)
      else (case split_ws cs of [] \<Rightarrow> [[c]] | w # ws \<Rightarrow> (c # w) # ws))"
  by pat_completeness auto
termination
  by (relation "measure length") (auto simp: length_dropWhile_le less_Suc_eq_le)

definition timeArgs :: "int \<Rightarrow> string \<Rightarrow> arg list" where
  "timeArgs now timeWindow =
     (if timeWindow \<noteq> [] then
        (let timeInSeconds = parseTimeWindow timeWindow
         in [Str ''-T'', TimeStr (now - int timeInSeconds * 1000)])
      else [Str ''-d''])"

definition specificPackage :: "string option \<Rightarrow> bool" where
  \<comment> \<open>\<open>packageFilter && packageFilter !== "mine"\<close>\<close>
  "specificPackage packageFilter = (truthy packageFilter \<and> packageFilter \<noteq> Some ''mine'')"

definition pidArgs :: "(arg list \<Rightarrow> error + string) \<Rightarrow> string option \<Rightarrow> arg list" where
  "pidArgs adb packageFilter =
     (if specificPackage packageFilter then
        (case adb [Str ''shell'', Str ''pidof'', Str (valueOf packageFilter)] of
           Inl e \<Rightarrow> []
         | Inr out \<Rightarrow>
             (let pidOutput = trim out
              in if pidOutput \<noteq> []
                 then concat (map (\<lambda>pid. [Str ''--pid'', Str pid]) (split_ws pidOutput))
                 else []))
      else [])"

definition logcatArgs :: "(arg list \<Rightarrow> error + string) \<Rightarrow> int \<Rightarrow> LogOptions \<Rightarrow> arg list" where
  "logcatArgs adb now options =
     (let timeWindow = or_default (opt_timeWindow options) ''1m'';
          packageFilter = fst (parseFilter (effectiveFilter options))
      in [Str ''shell'', Str ''logcat''] @ timeArgs now timeWindow @ pidArgs adb packageFilter)"

subsection \<open>Post-processing\<close>

definition isUserAppLine :: "string \<Rightarrow> bool" where
  "isUserAppLine line = (\<not> str_includes line ''com.android.'' \<and> \<not> str_includes line ''android.''
     \<and> \<not> str_includes line ''system_''
     \<and> (str_includes line ''com.'' \<or> str_includes line ''io.'' \<or> str_includes line ''net.''
          \<or> str_includes line ''app.''))"

definition postProcess ::
  "string option \<Rightarrow> string option \<Rightarrow> string option \<Rightarrow> string \<Rightarrow> string" where
  "postProcess filterOpt packageFilter searchQuery output =
     (let lines = filter (\<lambda>line. trim line \<noteq> []) (split_on (CHR 0x0A) output);
          filteredLines1 =
            (if specificPackage packageFilter
             then filter (\<lambda>line. str_includes line (valueOf packageFilter)) lines
             else lines);
          filteredLines2 =
            (if truthy filterOpt \<and> startsWith (valueOf filterOpt) ''package:mine''
             then filter isUserAppLine filteredLines1
             else filteredLines1);
          filteredLines3 =
            (if truthy searchQuery
             then filter (\<lambda>line. str_includes (toLowerCase line) (toLowerCase (valueOf searchQuery)))
                    filteredLines2
             else filteredLines2)
      in join newline filteredLines3)"

definition getDeviceLogs ::
  "(arg list \<Rightarrow> error + string) \<Rightarrow> int \<Rightarrow> LogOptions \<Rightarrow> error + string" where
  "getDeviceLogs adb now options =
     (let parsed = parseFilter (effectiveFilter options)
      in case adb (logcatArgs adb now options) of
           Inl e \<Rightarrow> Inl e
         | Inr output \<Rightarrow> Inr (postProcess (opt_filter options) (fst parsed) (snd parsed) output))"


definition noLogOptions :: LogOptions where
  "noLogOptions = \<lparr> opt_timeWindow = None, opt_filter = None, opt_process = None \<rparr>"


section \<open>\<open>server.ts\<close>: the tools\<close>

text \<open>
  Modelled from the spec: the interface \<open>Robot\<close> and the type \<open>InstalledApp\<close> of \<open>robot.ts\<close>,
  which is not among the sources; the methods are those that \<open>server.ts\<close> calls and
  \<open>android.ts\<close> implements (section 4.6 of the specification).

  The selected device is the \<open>Robot\<close> held in the variable \<open>robot\<close>, \<open>None\<close> as long as none is
  selected. A robot is given by what its methods answer: a value, or the error thrown;
  the optional methods of the interface are optional fields. A tool is a function to an
  outcome: the effects it has on the device, in order, and its result or the error it
  throws.
\<close>

record InstalledApp =
  app_appName :: string
  app_packageName :: string

record Robot =
  r_listApps :: "error + InstalledApp list"
  r_listAppsBooted :: "(error + InstalledApp list) option"
  r_launchApp :: "string \<Rightarrow> error + unit"
  r_launchAppBooted :: "(string \<Rightarrow> error + unit) option"
  r_terminateApp :: "string \<Rightarrow> error + unit"
  r_terminateAppBooted :: "(string \<Rightarrow> error + unit) option"
  r_getScreenSize :: "error + ScreenSize"
  r_tap :: "rat \<Rightarrow> rat \<Rightarrow> error + unit"
  r_getElementsOnScreen :: "error + ScreenElement list"
  r_pressButton :: "string \<Rightarrow> error + unit"
  r_openUrl :: "string \<Rightarrow> error + unit"
  r_swipe :: "string \<Rightarrow> error + unit"
  r_swipeFromCoordinate :: "rat \<Rightarrow> rat \<Rightarrow> string \<Rightarrow> rat option \<Rightarrow> error + unit"
  r_sendKeys :: "string \<Rightarrow> error + unit"
  r_getScreenshot :: "error + string"
  r_getScreenshotBooted :: "(error + string) option"
  r_setOrientation :: "string \<Rightarrow> error + unit"
  r_getOrientation :: "error + string"
  r_getDeviceLogs :: "LogOptions \<Rightarrow> bool option \<Rightarrow> error + string"

datatype effect =
    Robot_listApps
  | Robot_listAppsBooted
  | Robot_launchApp string
  | Robot_launchAppBooted string
  | Robot_terminateApp string
  | Robot_terminateAppBooted string
  | Robot_getScreenSize
  | Robot_tap rat rat
  | Robot_getElementsOnScreen
  | Robot_pressButton string
  | Robot_openUrl string
  | Robot_swipe string
  | Robot_swipeFromCoordinate rat rat string "rat option"
  | Robot_sendKeys string
  | Robot_getScreenshot
  | Robot_getScreenshotBooted
  | Robot_setOrientation string
  | Robot_getOrientation
  | Robot_getDeviceLogs LogOptions "bool option"
  | Fs_writeFileSync string string

datatype tool_result =
    Text message
  | TextAndImage message string string
  | IsError message

type_synonym 'a outcome = "effect list \<times> (error + 'a)"

definition return :: "'a \<Rightarrow> 'a outcome" where
  "return v = ([], Inr v)"

definition throw :: "error \<Rightarrow> 'a outcome" where
  "throw e = ([], Inl e)"

definition call :: "effect \<Rightarrow> (error + 'a) \<Rightarrow> 'a outcome" where
  \<comment> \<open>\<open>await robot.method(...)\<close>: the effect, and what the device answers\<close>
  "call eff answer = ([eff], answer)"

definition and_then :: "'a outcome \<Rightarrow> ('a \<Rightarrow> 'b outcome) \<Rightarrow> 'b outcome" where
  \<comment> \<open>sequencing: an error thrown by the first part ends the tool\<close>
  "and_then m f =
     (case m of
        (effects, Inl e) \<Rightarrow> (effects, Inl e)
      | (effects, Inr v) \<Rightarrow> (case f v of (effects', r) \<Rightarrow> (effects @ effects', r)))"

definition error_message :: "error \<Rightarrow> message" where
  "error_message e = (case e of ActionableError m \<Rightarrow> m | Error m \<Rightarrow> m)"

definition noDeviceSelected :: error where
  "noDeviceSelected =
     ActionableError [Lit ''No device selected. Use the mobile_use_device tool to select a device.'']"

definition requireRobot :: "Robot option \<Rightarrow> Robot outcome" where
  \<comment> \<open>\<open>requireRobot()\<close>, with the \<open>robot!\<close> that the tool goes on with\<close>
  "requireRobot robot = (case robot of None \<Rightarrow> throw noDeviceSelected | Some r \<Rightarrow> return r)"

definition defaulted :: "bool option \<Rightarrow> bool \<Rightarrow> bool" where
  \<comment> \<open>a destructured parameter with a default\<close>
  "defaulted v d = (case v of None \<Rightarrow> d | Some b \<Rightarrow> b)"

definition opt_json :: "string option \<Rightarrow> json" where
  "opt_json v = (case v of None \<Rightarrow> JUndefined | Some s \<Rightarrow> JStr s)"

subsection \<open>Tools that hand one command to the device\<close>

definition mobile_use_device ::
  "(string \<Rightarrow> string \<Rightarrow> Robot) \<Rightarrow> string \<Rightarrow> string \<Rightarrow> Robot option \<times> tool_result outcome" where
  \<comment> \<open>the new value of \<open>robot\<close> and the outcome; \<open>connect\<close> stands for the three constructors\<close>
  "mobile_use_device connect device deviceType =
     (Some (connect deviceType device), return (Text [Lit (''Selected device: '' @ device)]))"

definition mobile_list_apps :: "Robot option \<Rightarrow> bool option \<Rightarrow> tool_result outcome" where
  "mobile_list_apps robot ios_use_booted =
     and_then (requireRobot robot) (\<lambda>r.
       and_then
         (case r_listAppsBooted r of
            Some booted \<Rightarrow>
              if defaulted ios_use_booted False then call Robot_listAppsBooted booted
              else call Robot_listApps (r_listApps r)
          | None \<Rightarrow> call Robot_listApps (r_listApps r))
         (\<lambda>result. return (Text [Lit (''Found these apps on device: ''
            @ join '', '' (map (\<lambda>app. app_appName app @ '' ('' @ app_packageName app @ '')'') result))])))"

definition mobile_launch_app :: "Robot option \<Rightarrow> string \<Rightarrow> bool option \<Rightarrow> tool_result outcome" where
  "mobile_launch_app robot packageName ios_use_booted =
     and_then (requireRobot robot) (\<lambda>r.
       and_then
         (case r_launchAppBooted r of
            Some booted \<Rightarrow>
              if defaulted ios_use_booted True then call (Robot_launchAppBooted packageName) (booted packageName)
              else call (Robot_launchApp packageName) (r_launchApp r packageName)
          | None \<Rightarrow> call (Robot_launchApp packageName) (r_launchApp r packageName))
         (\<lambda>_. return (Text [Lit (''Launched app '' @ packageName)])))"

definition mobile_terminate_app :: "Robot option \<Rightarrow> string \<Rightarrow> bool option \<Rightarrow> tool_result outcome" where
  "mobile_terminate_app robot packageName ios_use_booted =
     and_then (requireRobot robot) (\<lambda>r.
       and_then
         (case r_terminateAppBooted r of
            Some booted \<Rightarrow>
              if defaulted ios_use_booted True
              then call (Robot_terminateAppBooted packageName) (booted packageName)
              else call (Robot_terminateApp packageName) (r_terminateApp r packageName)
          | None \<Rightarrow> call (Robot_terminateApp packageName) (r_terminateApp r packageName))
         (\<lambda>_. return (Text [Lit (''Terminated app '' @ packageName)])))"

definition mobile_get_screen_size :: "Robot option \<Rightarrow> tool_result outcome" where
  "mobile_get_screen_size robot =
     and_then (requireRobot robot) (\<lambda>r.
       and_then (call Robot_getScreenSize (r_getScreenSize r)) (\<lambda>screenSize.
         return (Text [Lit ''Screen size is '', Num (of_int (size_width screenSize)), Lit ''x'',
                       Num (of_int (size_height screenSize)), Lit '' pixels''])))"

definition mobile_click_on_screen_at_coordinates ::
  "Robot option \<Rightarrow> rat \<Rightarrow> rat \<Rightarrow> tool_result outcome" where
  "mobile_click_on_screen_at_coordinates robot x y =
     and_then (requireRobot robot) (\<lambda>r.
       and_then (call (Robot_tap x y) (r_tap r x y)) (\<lambda>_.
         return (Text [Lit ''Clicked on screen at coordinates: '', Num x, Lit '', '', Num y])))"

definition elementJson :: "ScreenElement \<Rightarrow> json" where
  "elementJson element =
     JObj ([(''type'', JStr (el_type element)),
            (''text'', opt_json (el_text element)),
            (''label'', JStr (el_label element)),
            (''name'', opt_json (el_name element)),
            (''value'', opt_json (el_value element)),
            (''identifier'', opt_json (el_identifier element)),
            (''coordinates'',
               JObj [(''x'', JNum (rect_x (el_rect element))),
                     (''y'', JNum (rect_y (el_rect element))),
                     (''width'', JNum (rect_width (el_rect element))),
                     (''height'', JNum (rect_height (el_rect element)))])]
           @ (if el_focused element = Some True then [(''focused'', JBool True)] else []))"

definition mobile_list_elements_on_screen :: "Robot option \<Rightarrow> tool_result outcome" where
  "mobile_list_elements_on_screen robot =
     and_then (requireRobot robot) (\<lambda>r.
       and_then (call Robot_getElementsOnScreen (r_getElementsOnScreen r)) (\<lambda>elements.
         return (Text [Lit ''Found these elements on screen: '',
                       Stringify (JArr (map elementJson elements))])))"

definition mobile_press_button :: "Robot option \<Rightarrow> string \<Rightarrow> tool_result outcome" where
  "mobile_press_button robot button =
     and_then (requireRobot robot) (\<lambda>r.
       and_then (call (Robot_pressButton button) (r_pressButton r button)) (\<lambda>_.
         return (Text [Lit (''Pressed the button: '' @ button)])))"

definition mobile_open_url :: "Robot option \<Rightarrow> string \<Rightarrow> tool_result outcome" where
  "mobile_open_url robot url =
     and_then (requireRobot robot) (\<lambda>r.
       and_then (call (Robot_openUrl url) (r_openUrl r url)) (\<lambda>_.
         return (Text [Lit (''Opened URL: '' @ url)])))"

definition swipe_on_screen ::
  "Robot option \<Rightarrow> string \<Rightarrow> rat option \<Rightarrow> rat option \<Rightarrow> rat option \<Rightarrow> tool_result outcome" where
  "swipe_on_screen robot direction x y distance =
     and_then (requireRobot robot) (\<lambda>r.
       (case (x, y) of
          (Some x', Some y') \<Rightarrow>
            and_then (call (Robot_swipeFromCoordinate x' y' direction distance)
                           (r_swipeFromCoordinate r x' y' direction distance)) (\<lambda>_.
              return (Text ([Lit (''Swiped '' @ direction)]
                @ (case distance of
                     None \<Rightarrow> []
                   | Some d \<Rightarrow> if d = 0 then [] else [Lit '' '', Num d, Lit '' pixels''])
                @ [Lit '' from coordinates: '', Num x', Lit '', '', Num y'])))
        | _ \<Rightarrow>
            and_then (call (Robot_swipe direction) (r_swipe r direction)) (\<lambda>_.
              return (Text [Lit (''Swiped '' @ direction @ '' on screen'')]))))"

definition mobile_type_keys :: "Robot option \<Rightarrow> string \<Rightarrow> bool \<Rightarrow> tool_result outcome" where
  "mobile_type_keys robot text submit =
     and_then (requireRobot robot) (\<lambda>r.
       and_then (call (Robot_sendKeys text) (r_sendKeys r text)) (\<lambda>_.
         and_then
           (if submit then call (Robot_pressButton ''ENTER'') (r_pressButton r ''ENTER'')
            else return ())
           (\<lambda>_. return (Text [Lit (''Typed text: '' @ text)]))))"

definition mobile_set_orientation :: "Robot option \<Rightarrow> string \<Rightarrow> tool_result outcome" where
  "mobile_set_orientation robot orientation =
     and_then (requireRobot robot) (\<lambda>r.
       and_then (call (Robot_setOrientation orientation) (r_setOrientation r orientation)) (\<lambda>_.
         return (Text [Lit (''Changed device orientation to '' @ orientation)])))"

definition mobile_get_orientation :: "Robot option \<Rightarrow> tool_result outcome" where
  "mobile_get_orientation robot =
     and_then (requireRobot robot) (\<lambda>r.
       and_then (call Robot_getOrientation (r_getOrientation r)) (\<lambda>orientation.
         return (Text [Lit (''Current device orientation is '' @ orientation)])))"

definition mobile_get_log ::
  "Robot option \<Rightarrow> string option \<Rightarrow> string option \<Rightarrow> bool option \<Rightarrow> string option
     \<Rightarrow> tool_result outcome" where
  "mobile_get_log robot timeWindow filterOpt iosUseBooted process =
     and_then (requireRobot robot) (\<lambda>r.
       (let options = \<lparr> opt_timeWindow = timeWindow, opt_filter = filterOpt, opt_process = process \<rparr>
        in and_then (call (Robot_getDeviceLogs options iosUseBooted)
                          (r_getDeviceLogs r options iosUseBooted)) (\<lambda>logs.
             (let filterText = (if truthy filterOpt
                                then '' (filtered by: '' @ valueOf filterOpt @ '')'' else []);
                  processText = (if truthy process
                                 then '' (process: '' @ valueOf process @ '')'' else []);
                  timeText = (if truthy timeWindow
                              then '' from last '' @ valueOf timeWindow else [])
              in return (Text [Lit (''Device logs'' @ timeText @ filterText @ processText @ '':''
                                    @ newline @ logs)])))))"

subsection \<open>\<open>mobile_take_screenshot\<close>\<close>

text \<open>
  Modelled from the spec: the helpers of \<open>png.ts\<close> and \<open>image-utils.ts\<close>, which are not among
  the sources. The PNG header reader, ImageMagick, the name of the temporary file and the
  base-64 encoding are the fields of an environment. The scale of a screen is not zero.
\<close>

record Env =
  png_getDimensions :: "string \<Rightarrow> error + int \<times> int"
  isImageMagickInstalled :: bool
  resize_jpeg :: "string \<Rightarrow> int \<Rightarrow> error + string"
  tmpFilename :: string
  base64 :: "string \<Rightarrow> string"

definition pure :: "(error + 'a) \<Rightarrow> 'a outcome" where
  \<comment> \<open>a helper that may throw and has no effect on the device\<close>
  "pure answer = ([], answer)"

definition screenshot_body :: "Env \<Rightarrow> Robot \<Rightarrow> bool option \<Rightarrow> bool option \<Rightarrow> tool_result outcome" where
  \<comment> \<open>the \<open>try\<close> block\<close>
  "screenshot_body env r ios_use_booted save =
     and_then (call Robot_getScreenSize (r_getScreenSize r)) (\<lambda>screenSize.
       and_then
         (case r_getScreenshotBooted r of
            Some booted \<Rightarrow>
              if defaulted ios_use_booted True then call Robot_getScreenshotBooted booted
              else call Robot_getScreenshot (r_getScreenshot r)
          | None \<Rightarrow> call Robot_getScreenshot (r_getScreenshot r))
         (\<lambda>screenshot.
           and_then (pure (png_getDimensions env screenshot)) (\<lambda>(pngWidth, pngHeight).
             if pngWidth \<le> 0 \<or> pngHeight \<le> 0
             then throw (ActionableError [Lit ''Screenshot is invalid. Please try again.''])
             else if isImageMagickInstalled env then
               and_then
                 (pure (resize_jpeg env screenshot
                    (Math_floor (of_int pngWidth / of_int (size_scale screenSize)))))
                 (\<lambda>resized.
                   if defaulted save False then
                     ([Fs_writeFileSync (tmpFilename env) resized],
                      Inr (TextAndImage
                        [Lit ''Screenshot: '', Num (of_int pngWidth), Lit ''x'', Num (of_int pngHeight),
                         Lit ''px, '', FormatBytes (length resized),
                         Lit ('', saved to: '' @ tmpFilename env)]
                        (base64 env resized) ''image/jpeg''))
                   else
                     return (TextAndImage
                       [Lit ''Screenshot: '', Num (of_int pngWidth), Lit ''x'', Num (of_int pngHeight),
                        Lit ''px, '', FormatBytes (length resized)]
                       (base64 env resized) ''image/jpeg''))
             else
               return (TextAndImage
                 [Lit ''Screenshot: '', Num (of_int pngWidth), Lit ''x'', Num (of_int pngHeight),
                  Lit ''px, '', FormatBytes (length screenshot)]
                 (base64 env screenshot) ''image/png''))))"

definition mobile_take_screenshot ::
  "Env \<Rightarrow> Robot option \<Rightarrow> bool option \<Rightarrow> bool option \<Rightarrow> tool_result outcome" where
  "mobile_take_screenshot env robot ios_use_booted save =
     and_then (requireRobot robot) (\<lambda>r.
       (case screenshot_body env r ios_use_booted save of
          (effects, Inl err) \<Rightarrow> (effects, Inr (IsError (Lit ''Error: '' # error_message err)))
        | (effects, Inr result) \<Rightarrow> (effects, Inr result)))"

subsection \<open>\<open>mobile_tap_element\<close>\<close>

definition searchFields :: "ScreenElement \<Rightarrow> string option list" where
  "searchFields element =
     filter (\<lambda>field. truthy field \<and> trim (valueOf field) \<noteq> [])
       [el_text element, Some (el_label element), el_name element, el_value element,
        el_identifier element]"

definition matchesQuery :: "string \<Rightarrow> ScreenElement \<Rightarrow> bool" where
  "matchesQuery query element =
     list_ex (\<lambda>field. truthy field
                \<and> str_includes (toLowerCase (valueOf field)) (toLowerCase query))
       (searchFields element)"

definition displayField :: "ScreenElement \<Rightarrow> string option" where
  \<comment> \<open>\<open>e.text || e.label || e.name || e.value || e.identifier\<close>\<close>
  "displayField e =
     or_else (or_else (or_else (or_else (el_text e) (Some (el_label e))) (el_name e)) (el_value e))
       (el_identifier e)"

definition centerX :: "ScreenElement \<Rightarrow> rat" where
  "centerX element = rect_x (el_rect element) + rect_width (el_rect element) / 2"

definition centerY :: "ScreenElement \<Rightarrow> rat" where
  "centerY element = rect_y (el_rect element) + rect_height (el_rect element) / 2"

definition matchJson :: "ScreenElement \<Rightarrow> json" where
  "matchJson element =
     JObj [(''type'', JStr (el_type element)),
           (''text'', opt_json (el_text element)),
           (''label'', JStr (el_label element)),
           (''name'', opt_json (el_name element)),
           (''value'', opt_json (el_value element)),
           (''identifier'', opt_json (el_identifier element)),
           (''coordinates'', JObj [(''x'', JNum (centerX element)), (''y'', JNum (centerY element))]),
           (''rect'',
              JObj [(''x'', JNum (rect_x (el_rect element))),
                    (''y'', JNum (rect_y (el_rect element))),
                    (''width'', JNum (rect_width (el_rect element))),
                    (''height'', JNum (rect_height (el_rect element)))])]"

definition noElementFound :: "string \<Rightarrow> ScreenElement list \<Rightarrow> error" where
  "noElementFound query elements =
     ActionableError
       [Lit (''No element found matching query: '' @ dquote @ query @ dquote
             @ ''. Available elements: ''
             @ join '', '' (map valueOf (filter truthy (map displayField elements))))]"

definition multipleElementsFound :: "string \<Rightarrow> ScreenElement list \<Rightarrow> error" where
  "multipleElementsFound query matchingElements =
     ActionableError
       [Lit (''Multiple elements found matching query: '' @ dquote @ query @ dquote @ ''. Found ''),
        Num (of_nat (length matchingElements)),
        Lit ('' matches:'' @ newline),
        StringifyPretty (JArr (map matchJson matchingElements))]"

definition mobile_tap_element :: "Robot option \<Rightarrow> string \<Rightarrow> tool_result outcome" where
  "mobile_tap_element robot query =
     and_then (requireRobot robot) (\<lambda>r.
       and_then (call Robot_getElementsOnScreen (r_getElementsOnScreen r)) (\<lambda>elements.
         (let matchingElements = filter (matchesQuery query) elements
          in if length matchingElements = 0 then throw (noElementFound query elements)
             else if length matchingElements > 1
             then throw (multipleElementsFound query matchingElements)
             else (case matchingElements of
                     [] \<Rightarrow> throw (noElementFound query elements) \<comment> \<open>not reached\<close>
                   | matchingElement # _ \<Rightarrow>
                       and_then (call (Robot_tap (centerX matchingElement) (centerY matchingElement))
                                   (r_tap r (centerX matchingElement) (centerY matchingElement)))
                         (\<lambda>_. return (Text
                            [Lit (''Tapped element '' @ dquote
                                  @ String_of (displayField matchingElement) @ dquote
                                  @ '' at coordinates: ''),
                             Num (centerX matchingElement), Lit '', '',
                             Num (centerY matchingElement)]))))))"

subsection \<open>The control-interface tools, by name\<close>

datatype tool_call =
    Call_mobile_list_apps "bool option"
  | Call_mobile_launch_app string "bool option"
  | Call_mobile_terminate_app string "bool option"
  | Call_mobile_get_screen_size
  | Call_mobile_click_on_screen_at_coordinates rat rat
  | Call_mobile_list_elements_on_screen
  | Call_mobile_press_button string
  | Call_mobile_open_url string
  | Call_swipe_on_screen string "rat option" "rat option" "rat option"
  | Call_mobile_type_keys string bool
  | Call_mobile_take_screenshot "bool option" "bool option"
  | Call_mobile_set_orientation string
  | Call_mobile_get_orientation
  | Call_mobile_tap_element string
  | Call_mobile_get_log "string option" "string option" "bool option" "string option"

fun invoke :: "Env \<Rightarrow> Robot option \<Rightarrow> tool_call \<Rightarrow> tool_result outcome" where
  "invoke env robot (Call_mobile_list_apps ios_use_booted) = mobile_list_apps robot ios_use_booted"
| "invoke env robot (Call_mobile_launch_app packageName ios_use_booted) =
     mobile_launch_app robot packageName ios_use_booted"
| "invoke env robot (Call_mobile_terminate_app packageName ios_use_booted) =
     mobile_terminate_app robot packageName ios_use_booted"
| "invoke env robot Call_mobile_get_screen_size = mobile_get_screen_size robot"
| "invoke env robot (Call_mobile_click_on_screen_at_coordinates x y) =
     mobile_click_on_screen_at_coordinates robot x y"
| "invoke env robot Call_mobile_list_elements_on_screen = mobile_list_elements_on_screen robot"
| "invoke env robot (Call_mobile_press_button button) = mobile_press_button robot button"
| "invoke env robot (Call_mobile_open_url url) = mobile_open_url robot url"
| "invoke env robot (Call_swipe_on_screen direction x y distance) =
     swipe_on_screen robot direction x y distance"
| "invoke env robot (Call_mobile_type_keys text submit) = mobile_type_keys robot text submit"
| "invoke env robot (Call_mobile_take_screenshot ios_use_booted save) =
     mobile_take_screenshot env robot ios_use_booted save"
| "invoke env robot (Call_mobile_set_orientation orientation) =
     mobile_set_orientation robot orientation"
| "invoke env robot Call_mobile_get_orientation = mobile_get_orientation robot"
| "invoke env robot (Call_mobile_tap_element query) = mobile_tap_element robot query"
| "invoke env robot (Call_mobile_get_log timeWindow filterOpt iosUseBooted process) =
     mobile_get_log robot timeWindow filterOpt iosUseBooted process"

text \<open>
  A device that shows the given elements and accepts every command, and an element with a
  rect only, to run the tools on.
\<close>

definition screenWith :: "ScreenElement list \<Rightarrow> Robot" where
  "screenWith elements =
     \<lparr> r_listApps = Inr [], r_listAppsBooted = None,
       r_launchApp = (\<lambda>_. Inr ()), r_launchAppBooted = None,
       r_terminateApp = (\<lambda>_. Inr ()), r_terminateAppBooted = None,
       r_getScreenSize = Inr \<lparr> size_width = 1080, size_height = 1920, size_scale = 1 \<rparr>,
       r_tap = (\<lambda>_ _. Inr ()),
       r_getElementsOnScreen = Inr elements,
       r_pressButton = (\<lambda>_. Inr ()), r_openUrl = (\<lambda>_. Inr ()), r_swipe = (\<lambda>_. Inr ()),
       r_swipeFromCoordinate = (\<lambda>_ _ _ _. Inr ()), r_sendKeys = (\<lambda>_. Inr ()),
       r_getScreenshot = Inr [], r_getScreenshotBooted = None,
       r_setOrientation = (\<lambda>_. Inr ()), r_getOrientation = Inr ''portrait'',
       r_getDeviceLogs = (\<lambda>_ _. Inr []) \<rparr>"

definition elementAt :: "rat \<Rightarrow> rat \<Rightarrow> rat \<Rightarrow> rat \<Rightarrow> ScreenElement" where
  "elementAt x y w h =
     \<lparr> el_type = ''element'', el_text = None, el_label = [], el_name = None, el_value = None,
       el_identifier = None,
       el_rect = \<lparr> rect_x = x, rect_y = y, rect_width = w, rect_height = h \<rparr>,
       el_focused = None \<rparr>"

text \<open>
  The strings of the five fields, an absent one as the empty string, and what the message
  of no match lists: of each element the first field that is not empty, if there is one.
\<close>

definition fieldValues :: "ScreenElement \<Rightarrow> string list" where
  "fieldValues e =
     [valueOf (el_text e), el_label e, valueOf (el_name e), valueOf (el_value e),
      valueOf (el_identifier e)]"

definition firstNonEmptyFields :: "ScreenElement list \<Rightarrow> string list" where
  "firstNonEmptyFields elements =
     concat (map (\<lambda>e. case find (\<lambda>s. s \<noteq> []) (fieldValues e) of None \<Rightarrow> [] | Some s \<Rightarrow> [s])
       elements)"

text \<open>
  The elements that match a query, in the words of the specification (one of the five
  fields is not empty and contains the query, cases ignored), and with \<open>not blank\<close> for
  \<open>not empty\<close>.
\<close>

definition nonEmptyFieldContains :: "string \<Rightarrow> ScreenElement \<Rightarrow> bool" where
  "nonEmptyFieldContains query e =
     (\<exists>s. (el_text e = Some s \<or> el_label e = s \<or> el_name e = Some s \<or> el_value e = Some s
            \<or> el_identifier e = Some s)
          \<and> s \<noteq> [] \<and> str_includes (toLowerCase s) (toLowerCase query))"

definition nonBlankFieldContains :: "string \<Rightarrow> ScreenElement \<Rightarrow> bool" where
  "nonBlankFieldContains query e =
     (\<exists>s. (el_text e = Some s \<or> el_label e = s \<or> el_name e = Some s \<or> el_value e = Some s
            \<or> el_identifier e = Some s)
          \<and> trim s \<noteq> [] \<and> str_includes (toLowerCase s) (toLowerCase query))"

text \<open>Three elements of a form, to run the tool on.\<close>

definition labelledSubmit :: ScreenElement where
  "labelledSubmit = (elementAt 0 0 100 40)\<lparr>el_label := ''Submit Form''\<rparr>"

definition identifiedSubmit :: ScreenElement where
  "identifiedSubmit = (elementAt 0 50 200 60)\<lparr>el_identifier := Some ''submit_button''\<rparr>"

definition cancelButton :: ScreenElement where
  "cancelButton = (elementAt 0 120 200 60)\<lparr>el_text := Some ''Cancel''\<rparr>"

definition blankText :: ScreenElement where
  "blankText = (elementAt 0 0 10 10)\<lparr>el_text := Some '' ''\<rparr>"


section \<open>Properties of the strings\<close>


lemma startsWith_append [simp]: "startsWith (p @ s) p"
  by (induction p) auto

lemma startsWith_iff: "startsWith s p = (take (length p) s = p)"
  by (induction s p rule: startsWith.induct) auto







section \<open>The bounds pattern\<close>









lemmas bounds_eval = getScreenElementRect_def String_of_def matchBounds_def expect_def digits1_def
  isDigit_def Number_digits_def digitValue_def noAttrs_def

lemmas element_eval = nodeElements_def isInteractive_def hasTextOrLabel_def truthy_def
  positiveArea_def or_default_def or_else_def

section \<open>The traversal\<close>

lemma concat_map_children:
  "(\<And>x. x \<in> set cs \<Longrightarrow> f x = concat (map g (h x))) \<Longrightarrow>
   concat (map f cs) = concat (map g (concat (map h cs)))"
  by (induction cs) auto

lemma collectElements_postorder: "collectElements t = concat (map nodeElements (postorder t))"
proof (induction t rule: collectElements.induct)
  case (1 node)
  show ?case by simp
next
  case (2 node childNode)
  then show ?case by simp
next
  case (3 node childNodes)
  then have "concat (map collectElements childNodes)
      = concat (map nodeElements (concat (map postorder childNodes)))"
    by (rule concat_map_children)
  then show ?case by simp
qed




lemma nodeElements_nonempty_iff:
  "nodeElements n \<noteq> [] \<longleftrightarrow>
     (hasTextOrLabel n \<or> isInteractive n)
     \<and> (\<exists>r. getScreenElementRect n = Some r \<and> 0 < rect_width r \<and> 0 < rect_height r)"
  by (auto simp: nodeElements_def positiveArea_def split: option.splits)

lemma nodeElements_length: "length (nodeElements n) \<le> 1"
  by (simp add: nodeElements_def split: option.splits)

lemma isInteractive_iff:
  "isInteractive n \<longleftrightarrow>
     node_clickable n = Some ''true'' \<or> node_focusable n = Some ''true''
     \<or> (\<exists>c. node_class n = Some c \<and> (str_includes c ''Button'' \<or> str_includes c ''ImageView''
           \<or> str_includes c ''ImageButton'' \<or> str_includes c ''View''))"
  by (auto simp: isInteractive_def split: option.splits)

section \<open>The Android extractor: claims\<close>

text \<open>
  Claim C3, as amended. The output of the extractor on a tree is the concatenation, in
  post-order, of what each node pushes, which is at most one element; a node pushes an
  element if and only if it has a non-empty text, content-desc, hint or resource-id or is
  interactive (clickable or focusable equal to \<open>true\<close>, or a class name that contains
  \<open>Button\<close>, \<open>ImageView\<close>, \<open>ImageButton\<close> or \<open>View\<close>), and moreover its bounds parse to a rect of
  positive width and height. A single leaf that carries only \<open>clickable="true"\<close> and the
  bounds \<open>[0,0][10,20]\<close> is in the output, with no text and an empty label.
\<close>

theorem collectElements_inclusion:
  "collectElements t = concat (map nodeElements (postorder t))
   \<and> length (nodeElements n) \<le> 1
   \<and> (nodeElements n \<noteq> [] \<longleftrightarrow>
        (truthy (node_text n) \<or> truthy (node_content_desc n) \<or> truthy (node_hint n)
           \<or> truthy (node_resource_id n)
           \<or> node_clickable n = Some ''true'' \<or> node_focusable n = Some ''true''
           \<or> (\<exists>c. node_class n = Some c \<and> (str_includes c ''Button'' \<or> str_includes c ''ImageView''
                 \<or> str_includes c ''ImageButton'' \<or> str_includes c ''View'')))
        \<and> (\<exists>r. getScreenElementRect n = Some r \<and> 0 < rect_width r \<and> 0 < rect_height r))
   \<and> collectElements
        (XmlNode (noAttrs\<lparr>node_clickable := Some ''true'', node_bounds := Some ''[0,0][10,20]''\<rparr>) NoChild)
      = [\<lparr> el_type = ''element'', el_text = None, el_label = [], el_name = None, el_value = None,
            el_identifier = None,
            el_rect = \<lparr> rect_x = 0, rect_y = 0, rect_width = 10, rect_height = 20 \<rparr>,
            el_focused = None \<rparr>]"
proof (intro conjI)
  show "collectElements t = concat (map nodeElements (postorder t))"
    by (rule collectElements_postorder)
  show "length (nodeElements n) \<le> 1"
    by (rule nodeElements_length)
  show "nodeElements n \<noteq> [] \<longleftrightarrow>
        (truthy (node_text n) \<or> truthy (node_content_desc n) \<or> truthy (node_hint n)
           \<or> truthy (node_resource_id n)
           \<or> node_clickable n = Some ''true'' \<or> node_focusable n = Some ''true''
           \<or> (\<exists>c. node_class n = Some c \<and> (str_includes c ''Button'' \<or> str_includes c ''ImageView''
                 \<or> str_includes c ''ImageButton'' \<or> str_includes c ''View'')))
        \<and> (\<exists>r. getScreenElementRect n = Some r \<and> 0 < rect_width r \<and> 0 < rect_height r)"
    unfolding nodeElements_nonempty_iff isInteractive_iff hasTextOrLabel_def by blast
  show "collectElements
        (XmlNode (noAttrs\<lparr>node_clickable := Some ''true'', node_bounds := Some ''[0,0][10,20]''\<rparr>) NoChild)
      = [\<lparr> el_type = ''element'', el_text = None, el_label = [], el_name = None, el_value = None,
            el_identifier = None,
            el_rect = \<lparr> rect_x = 0, rect_y = 0, rect_width = 10, rect_height = 20 \<rparr>,
            el_focused = None \<rparr>]"
    by (simp add: bounds_eval element_eval)
qed

text \<open>
  Claim C3 as stated fails on its own example: the leaf that carries only
  \<open>clickable="true"\<close> is interactive, and the output of its tree is empty, since
  \<open>String(undefined)\<close> is no bounds string. So does a node with a text and bounds of width
  zero.
\<close>

theorem collectElements_inclusion_counterexample:
  "isInteractive (noAttrs\<lparr>node_clickable := Some ''true''\<rparr>)
   \<and> collectElements (XmlNode (noAttrs\<lparr>node_clickable := Some ''true''\<rparr>) NoChild) = []
   \<and> hasTextOrLabel (noAttrs\<lparr>node_text := Some ''OK'', node_bounds := Some ''[5,5][5,9]''\<rparr>)
   \<and> collectElements
        (XmlNode (noAttrs\<lparr>node_text := Some ''OK'', node_bounds := Some ''[5,5][5,9]''\<rparr>) NoChild) = []"
  by (simp add: bounds_eval element_eval)



section \<open>The gestures\<close>

lemma floor_frac: "Math_floor (of_int k / of_int q) = k div q"
  unfolding Math_floor_def by (rule floor_divide_of_int_eq)

lemma floor_80: "Math_floor (of_int h * (80 / 100)) = (4 * h) div 5"
proof -
  have "of_int h * (80 / 100) = (of_int (4 * h) / of_int 5 :: rat)" by simp
  then show ?thesis by (simp only: floor_frac)
qed

lemma floor_20: "Math_floor (of_int h * (20 / 100)) = h div 5"
proof -
  have "of_int h * (20 / 100) = (of_int h / of_int 5 :: rat)" by simp
  then show ?thesis by (simp only: floor_frac)
qed

lemma floor_50: "Math_floor (of_int h * (50 / 100)) = h div 2"
proof -
  have "of_int h * (50 / 100) = (of_int h / of_int 2 :: rat)" by simp
  then show ?thesis by (simp only: floor_frac)
qed


lemma shr1_half: "- (2 ^ 31) \<le> w \<Longrightarrow> w < 2 ^ 31 \<Longrightarrow> shr1 w = w div 2"
  by (simp add: shr1_def ToInt32_def)

lemma swipe_eq:
  assumes "0 < size_width screenSize" and "size_width screenSize < 2 ^ 31"
  shows "swipe screenSize direction =
     (let w = size_width screenSize; h = size_height screenSize
      in if direction = ''up'' then
           Inr (inputSwipe (of_int (w div 2)) (of_int ((4 * h) div 5)) (of_int (w div 2)) (of_int (h div 5)))
         else if direction = ''down'' then
           Inr (inputSwipe (of_int (w div 2)) (of_int (h div 5)) (of_int (w div 2)) (of_int ((4 * h) div 5)))
         else if direction = ''left'' then
           Inr (inputSwipe (of_int ((4 * w) div 5)) (of_int (h div 2)) (of_int (w div 5)) (of_int (h div 2)))
         else if direction = ''right'' then
           Inr (inputSwipe (of_int (w div 5)) (of_int (h div 2)) (of_int ((4 * w) div 5)) (of_int (h div 2)))
         else Inl (unsupportedDirection direction))"
proof -
  have "shr1 (size_width screenSize) = size_width screenSize div 2"
    using assms by (simp add: shr1_half)
  then show ?thesis
    by (simp only: swipe_def Let_def floor_80 floor_20 floor_50)
qed






text \<open>
  Claim C5. On a screen of width \<open>w\<close> and height \<open>h\<close> (\<open>w\<close> positive and below \<open>2^31\<close>), the
  directional swipe runs along the midline \<open>x = w div 2\<close> from four fifths to one fifth of
  the height for \<open>up\<close>, the other way for \<open>down\<close>, and along the midline \<open>y = h div 2\<close> from
  four fifths to one fifth of the width for \<open>left\<close>, the other way for \<open>right\<close>, every
  coordinate rounded down to a whole pixel. On a screen of 1000 by 2000, \<open>up\<close> runs from
  (500, 1600) to (500, 400). Any other direction fails with the actionable error that
  names it.
\<close>

theorem swipe_midline:
  assumes "0 < size_width screenSize" and "size_width screenSize < 2 ^ 31"
    and "w = size_width screenSize" and "h = size_height screenSize"
  shows "swipe screenSize ''up'' =
           Inr (inputSwipe (of_int (w div 2)) (of_int ((4 * h) div 5))
                           (of_int (w div 2)) (of_int (h div 5)))
       \<and> swipe screenSize ''down'' =
           Inr (inputSwipe (of_int (w div 2)) (of_int (h div 5))
                           (of_int (w div 2)) (of_int ((4 * h) div 5)))
       \<and> swipe screenSize ''left'' =
           Inr (inputSwipe (of_int ((4 * w) div 5)) (of_int (h div 2))
                           (of_int (w div 5)) (of_int (h div 2)))
       \<and> swipe screenSize ''right'' =
           Inr (inputSwipe (of_int (w div 5)) (of_int (h div 2))
                           (of_int ((4 * w) div 5)) (of_int (h div 2)))
       \<and> swipe \<lparr> size_width = 1000, size_height = 2000, size_scale = 1 \<rparr> ''up'' =
           Inr (inputSwipe 500 1600 500 400)
       \<and> (direction \<notin> {''up'', ''down'', ''left'', ''right''} \<longrightarrow>
           swipe screenSize direction =
             Inl (ActionableError
                    [Lit (''Swipe direction '' @ dquote @ direction @ dquote @ '' is not supported'')]))"
proof -
  have ex: "swipe \<lparr> size_width = 1000, size_height = 2000, size_scale = 1 \<rparr> ''up'' =
           Inr (inputSwipe 500 1600 500 400)"
    by (subst swipe_eq) (simp_all add: Let_def)
  show ?thesis
    using assms(3,4) ex
    by (simp add: swipe_eq [OF assms(1,2)] unsupportedDirection_def Let_def)
qed

theorem swipe_midline_witness:
  "swipe \<lparr> size_width = 1080, size_height = 1920, size_scale = 1 \<rparr> ''left'' =
      Inr (inputSwipe 864 960 216 960)
   \<and> swipe \<lparr> size_width = 1080, size_height = 1920, size_scale = 1 \<rparr> ''diagonal'' =
      Inl (ActionableError [Lit (''Swipe direction '' @ dquote @ ''diagonal'' @ dquote @ '' is not supported'')])"
  using swipe_midline [of "\<lparr> size_width = 1080, size_height = 1920, size_scale = 1 \<rparr>" 1080 1920 "''diagonal''"]
  by simp






section \<open>Substrings and white space\<close>

lemma str_includes_Nil [simp]: "str_includes s []"
  by (cases s) simp_all

lemma startsWith_prefix: "startsWith s (a @ b) \<Longrightarrow> startsWith s a"
  by (induction s a rule: startsWith.induct) auto

lemma startsWith_includes: "startsWith s a \<Longrightarrow> str_includes s a"
  by (cases s; cases a) auto

lemma str_includes_set: "str_includes s sub \<Longrightarrow> set sub \<subseteq> set s"
proof (induction s)
  case Nil
  then show ?case by simp
next
  case (Cons c cs)
  from Cons.prems have "startsWith (c # cs) sub \<or> str_includes cs sub" by simp
  then show ?case
  proof
    assume "startsWith (c # cs) sub"
    then have "sub = take (length sub) (c # cs)" by (simp add: startsWith_iff)
    moreover have "set (take (length sub) (c # cs)) \<subseteq> set (c # cs)" by (rule set_take_subset)
    ultimately show ?thesis by (rule ssubst)
  next
    assume "str_includes cs sub"
    with Cons.IH show ?thesis by auto
  qed
qed

lemma trim_Nil [simp]: "trim [] = []"
  by (simp add: trim_def)

lemma trim_space [simp]: "trim (CHR '' '' # t) = trim t"
  by (simp add: trim_def isSpace_def)

lemma trim_empty_iff: "trim s = [] \<longleftrightarrow> (\<forall>c\<in>set s. isSpace c)"
proof
  assume "trim s = []"
  then have "dropWhile isSpace (rev (dropWhile isSpace s)) = []"
    by (simp add: trim_def)
  then have "\<forall>c\<in>set (rev (dropWhile isSpace s)). isSpace c"
    by (simp add: dropWhile_eq_Nil_conv)
  then have a: "\<forall>c\<in>set (dropWhile isSpace s). isSpace c" by simp
  show "\<forall>c\<in>set s. isSpace c"
  proof (rule ccontr)
    assume "\<not> (\<forall>c\<in>set s. isSpace c)"
    then have ne: "dropWhile isSpace s \<noteq> []" by (simp add: dropWhile_eq_Nil_conv)
    then have "\<not> isSpace (hd (dropWhile isSpace s))" by (rule hd_dropWhile)
    moreover have "hd (dropWhile isSpace s) \<in> set (dropWhile isSpace s)"
      using ne by simp
    ultimately show False using a by blast
  qed
next
  assume "\<forall>c\<in>set s. isSpace c"
  then have "dropWhile isSpace s = []" by (simp add: dropWhile_eq_Nil_conv)
  then have "rev (dropWhile isSpace (rev (dropWhile isSpace s))) = []"
    by (simp only: rev.simps dropWhile.simps)
  then show "trim s = []" by (simp only: trim_def)
qed

section \<open>The log filter\<close>

lemmas logs_eval = getDeviceLogs_def logcatArgs_def timeArgs_def pidArgs_def specificPackage_def
  parseFilter_def effectiveFilter_def postProcess_def isUserAppLine_def parseTimeWindow_def
  matchTimeWindow_def digits1_def isDigit_def Number_digits_def digitValue_def or_default_def
  truthy_def valueOf_def trim_def isSpace_def toLowerCase_def toLowerChar_def newline_def
  optionalGroup_def isLineTerminator_def noLogOptions_def

lemma isUserAppLine_nonblank: "isUserAppLine line \<Longrightarrow> trim line \<noteq> []"
proof
  assume u: "isUserAppLine line" and "trim line = []"
  then have sp: "\<forall>c\<in>set line. isSpace c" by (simp add: trim_empty_iff)
  from u have "str_includes line ''com.'' \<or> str_includes line ''io.'' \<or> str_includes line ''net.''
      \<or> str_includes line ''app.''"
    by (simp add: isUserAppLine_def)
  then obtain sub where "str_includes line sub" and "CHR ''.'' \<in> set sub"
    by fastforce
  then have "CHR ''.'' \<in> set line"
    using str_includes_set by blast
  with sp have "isSpace (CHR ''.'')" by blast
  then show False by (simp add: isSpace_def)
qed

lemma mine_effective:
  "effectiveFilter \<lparr> opt_timeWindow = tw, opt_filter = Some (''package:mine '' @ t), opt_process = p \<rparr>
     = Some (''package:mine '' @ t)"
  by (simp add: effectiveFilter_def truthy_def valueOf_def)

lemma mine_parse:
  "parseFilter (Some (''package:mine '' @ t)) = (None, if trim t \<noteq> [] then Some (trim t) else None)"
  by (simp add: parseFilter_def truthy_def valueOf_def)

lemma mine_postProcess:
  "postProcess (Some (''package:mine '' @ t)) None (if trim t \<noteq> [] then Some (trim t) else None) output =
     join newline (filter (\<lambda>line. isUserAppLine line
        \<and> str_includes (toLowerCase line) (toLowerCase (trim t))) (split_on (CHR 0x0A) output))"
proof -
  have a: "(\<lambda>line. trim line \<noteq> [] \<and> isUserAppLine line \<and> P line)
      = (\<lambda>line. isUserAppLine line \<and> P line)" for P
    using isUserAppLine_nonblank by auto
  have b: "(\<lambda>line. trim line \<noteq> [] \<and> isUserAppLine line) = isUserAppLine"
    using isUserAppLine_nonblank by auto
  show ?thesis
  proof (cases "trim t = []")
    case True
    then show ?thesis
      by (simp add: postProcess_def specificPackage_def truthy_def valueOf_def b toLowerCase_def)
  next
    case False
    then show ?thesis
      by (simp add: postProcess_def specificPackage_def truthy_def valueOf_def a)
  qed
qed

lemma mine_logcatArgs:
  "logcatArgs adb now \<lparr> opt_timeWindow = tw, opt_filter = Some (''package:mine '' @ t), opt_process = p \<rparr>
     = [Str ''shell'', Str ''logcat''] @ timeArgs now (or_default tw ''1m'')"
  by (simp only: logcatArgs_def Let_def mine_effective mine_parse fst_conv pidArgs_def
        specificPackage_def truthy_def LogOptions.simps option.case if_False simp_thms append_Nil2)

lemma mine_getDeviceLogs:
  "getDeviceLogs adb now \<lparr> opt_timeWindow = tw, opt_filter = Some (''package:mine '' @ t), opt_process = p \<rparr> =
     (case adb ([Str ''shell'', Str ''logcat''] @ timeArgs now (or_default tw ''1m'')) of
        Inl e \<Rightarrow> Inl e
      | Inr output \<Rightarrow>
          Inr (join newline (filter (\<lambda>line. isUserAppLine line
                 \<and> str_includes (toLowerCase line) (toLowerCase (trim t))) (split_on (CHR 0x0A) output))))"
  by (simp only: getDeviceLogs_def Let_def mine_effective mine_parse mine_logcatArgs fst_conv snd_conv
      LogOptions.simps mine_postProcess)

lemma mine_example:
  "getDeviceLogs (\<lambda>args. Inr (''com.android.system: ok'' @ newline @ ''com.example.app: error seen'')) now
     \<lparr> opt_timeWindow = None, opt_filter = Some (''package:mine '' @ ''error''), opt_process = None \<rparr>
   = Inr ''com.example.app: error seen''"
proof -
  have "getDeviceLogs (\<lambda>args. Inr (''com.android.system: ok'' @ newline @ ''com.example.app: error seen'')) now
     \<lparr> opt_timeWindow = None, opt_filter = Some (''package:mine '' @ ''error''), opt_process = None \<rparr>
   = Inr (join newline (filter (\<lambda>line. isUserAppLine line
                 \<and> str_includes (toLowerCase line) (toLowerCase (trim ''error'')))
          (split_on (CHR 0x0A) (''com.android.system: ok'' @ newline @ ''com.example.app: error seen''))))"
    by (simp only: mine_getDeviceLogs sum.case)
  also have "\<dots> = Inr ''com.example.app: error seen''"
    by (simp add: newline_def isUserAppLine_def trim_def isSpace_def toLowerCase_def toLowerChar_def)
  finally show ?thesis .
qed

text \<open>
  Claim C7, as amended. With the filter \<open>package:mine t\<close> and whatever the time window and
  the process are, the log operation reads the log once and keeps exactly the lines of the
  output that contain none of \<open>com.android.\<close>, \<open>android.\<close>, \<open>system_\<close>, contain at least one of
  \<open>com.\<close>, \<open>io.\<close>, \<open>net.\<close>, \<open>app.\<close>, and contain \<open>t\<close> with the white space at its ends removed, cases
  ignored, in their order, joined by line feeds. The filter \<open>package:mine error\<close> on the
  lines \<open>com.android.system: ok\<close> and \<open>com.example.app: error seen\<close> yields the second line
  only.
\<close>

theorem package_mine_filter:
  "getDeviceLogs adb now
     \<lparr> opt_timeWindow = tw, opt_filter = Some (''package:mine '' @ t), opt_process = p \<rparr> =
     (case adb ([Str ''shell'', Str ''logcat''] @ timeArgs now (or_default tw ''1m'')) of
        Inl e \<Rightarrow> Inl e
      | Inr output \<Rightarrow>
          Inr (join newline (filter
            (\<lambda>line. (\<not> str_includes line ''com.android.'' \<and> \<not> str_includes line ''android.''
                      \<and> \<not> str_includes line ''system_''
                      \<and> (str_includes line ''com.'' \<or> str_includes line ''io.''
                           \<or> str_includes line ''net.'' \<or> str_includes line ''app.''))
                   \<and> str_includes (toLowerCase line) (toLowerCase (trim t)))
            (split_on (CHR 0x0A) output))))
   \<and> getDeviceLogs
        (\<lambda>args. Inr (''com.android.system: ok'' @ newline @ ''com.example.app: error seen'')) now
        \<lparr> opt_timeWindow = None, opt_filter = Some (''package:mine '' @ ''error''), opt_process = None \<rparr>
      = Inr ''com.example.app: error seen''"
proof
  show "getDeviceLogs adb now
     \<lparr> opt_timeWindow = tw, opt_filter = Some (''package:mine '' @ t), opt_process = p \<rparr> =
     (case adb ([Str ''shell'', Str ''logcat''] @ timeArgs now (or_default tw ''1m'')) of
        Inl e \<Rightarrow> Inl e
      | Inr output \<Rightarrow>
          Inr (join newline (filter
            (\<lambda>line. (\<not> str_includes line ''com.android.'' \<and> \<not> str_includes line ''android.''
                      \<and> \<not> str_includes line ''system_''
                      \<and> (str_includes line ''com.'' \<or> str_includes line ''io.''
                           \<or> str_includes line ''net.'' \<or> str_includes line ''app.''))
                   \<and> str_includes (toLowerCase line) (toLowerCase (trim t)))
            (split_on (CHR 0x0A) output))))"
    unfolding mine_getDeviceLogs isUserAppLine_def by (rule refl)
  show "getDeviceLogs
        (\<lambda>args. Inr (''com.android.system: ok'' @ newline @ ''com.example.app: error seen'')) now
        \<lparr> opt_timeWindow = None, opt_filter = Some (''package:mine '' @ ''error''), opt_process = None \<rparr>
      = Inr ''com.example.app: error seen''"
    by (rule mine_example)
qed

text \<open>
  Claim C7 as stated fails for a term with white space at an end: with the filter
  \<open>package:mine error \<close> (a space behind \<open>error\<close>) the line \<open>com.example.app: error\<close> is kept,
  and it does not contain the term \<open>error \<close>.
\<close>

theorem package_mine_filter_counterexample:
  "getDeviceLogs (\<lambda>args. Inr ''com.example.app: error'') 0
     \<lparr> opt_timeWindow = None, opt_filter = Some (''package:mine '' @ ''error ''), opt_process = None \<rparr>
     = Inr ''com.example.app: error''
   \<and> \<not> str_includes (toLowerCase ''com.example.app: error'') (toLowerCase ''error '')"
  by (simp add: logs_eval)

section \<open>The process parameter\<close>

lemma bare_not_mine: "\<not> str_includes f ''package:'' \<Longrightarrow> \<not> startsWith f ''package:mine''"
proof
  assume n: "\<not> str_includes f ''package:''" and "startsWith f ''package:mine''"
  then have "startsWith f (''package:'' @ ''mine'')" by simp
  then have "startsWith f ''package:''" by (rule startsWith_prefix)
  then have "str_includes f ''package:''" by (rule startsWith_includes)
  with n show False by simp
qed

lemma mine_prefix:
  assumes "\<not> startsWith p ''mine''"
  shows "\<not> startsWith (p @ CHR '' '' # f) ''mine''"
proof (cases p)
  case Nil
  then show ?thesis by simp
next
  case p1: (Cons a p')
  show ?thesis
  proof (cases p')
    case Nil
    with p1 show ?thesis by simp
  next
    case p2: (Cons b p'')
    show ?thesis
    proof (cases p'')
      case Nil
      with p1 p2 show ?thesis by simp
    next
      case p3: (Cons c p''')
      show ?thesis
      proof (cases p''')
        case Nil
        with p1 p2 p3 show ?thesis by simp
      next
        case (Cons d q)
        with p1 p2 p3 assms show ?thesis by simp
      qed
    qed
  qed
qed

lemma postProcess_filter_cong:
  assumes "(truthy f1 \<and> startsWith (valueOf f1) ''package:mine'')
         = (truthy f2 \<and> startsWith (valueOf f2) ''package:mine'')"
  shows "postProcess f1 packageFilter searchQuery output = postProcess f2 packageFilter searchQuery output"
  unfolding postProcess_def Let_def using assms by simp

lemma getDeviceLogs_cong:
  assumes "opt_timeWindow o1 = opt_timeWindow o2"
    and "effectiveFilter o1 = effectiveFilter o2"
    and "(truthy (opt_filter o1) \<and> startsWith (valueOf (opt_filter o1)) ''package:mine'')
         = (truthy (opt_filter o2) \<and> startsWith (valueOf (opt_filter o2)) ''package:mine'')"
  shows "getDeviceLogs adb now o1 = getDeviceLogs adb now o2"
proof -
  have "logcatArgs adb now o1 = logcatArgs adb now o2"
    using assms(1,2) by (simp add: logcatArgs_def)
  moreover have "postProcess (opt_filter o1) pf sq out = postProcess (opt_filter o2) pf sq out"
    for pf sq out
    using assms(3) by (rule postProcess_filter_cong)
  ultimately show ?thesis
    using assms(2) by (simp add: getDeviceLogs_def Let_def split: sum.splits)
qed

text \<open>
  Where the folding of the process into the filter is an equivalence: for a process
  identifier that is not empty and does not start with \<open>mine\<close>.
\<close>

lemma getDeviceLogs_process_fold:
  assumes "p \<noteq> []" and "\<not> startsWith p ''mine''"
    and "f \<noteq> []" and "\<not> str_includes f ''package:''"
  shows "getDeviceLogs adb now \<lparr> opt_timeWindow = tw, opt_filter = Some f, opt_process = Some p \<rparr>
       = getDeviceLogs adb now
           \<lparr> opt_timeWindow = tw, opt_filter = Some (''package:'' @ p @ '' '' @ f), opt_process = None \<rparr>"
proof (rule getDeviceLogs_cong)
  show "effectiveFilter \<lparr> opt_timeWindow = tw, opt_filter = Some f, opt_process = Some p \<rparr>
      = effectiveFilter
          \<lparr> opt_timeWindow = tw, opt_filter = Some (''package:'' @ p @ '' '' @ f), opt_process = None \<rparr>"
    using assms by (simp add: effectiveFilter_def truthy_def valueOf_def)
  have "\<not> startsWith f ''package:mine''"
    using assms(4) by (rule bare_not_mine)
  moreover have "\<not> startsWith (p @ CHR '' '' # f) ''mine''"
    using assms(2) by (rule mine_prefix)
  ultimately show "(truthy (opt_filter \<lparr> opt_timeWindow = tw, opt_filter = Some f, opt_process = Some p \<rparr>)
       \<and> startsWith (valueOf (opt_filter \<lparr> opt_timeWindow = tw, opt_filter = Some f, opt_process = Some p \<rparr>))
            ''package:mine'')
      = (truthy (opt_filter \<lparr> opt_timeWindow = tw, opt_filter = Some (''package:'' @ p @ '' '' @ f),
                   opt_process = None \<rparr>)
       \<and> startsWith (valueOf (opt_filter \<lparr> opt_timeWindow = tw,
                   opt_filter = Some (''package:'' @ p @ '' '' @ f), opt_process = None \<rparr>)) ''package:mine'')"
    by (simp add: valueOf_def)
qed simp

lemma getDeviceLogs_process_alone:
  assumes "p \<noteq> []" and "\<not> startsWith p ''mine''"
  shows "getDeviceLogs adb now \<lparr> opt_timeWindow = tw, opt_filter = None, opt_process = Some p \<rparr>
       = getDeviceLogs adb now
           \<lparr> opt_timeWindow = tw, opt_filter = Some (''package:'' @ p), opt_process = None \<rparr>"
proof (rule getDeviceLogs_cong)
  show "effectiveFilter \<lparr> opt_timeWindow = tw, opt_filter = None, opt_process = Some p \<rparr>
      = effectiveFilter \<lparr> opt_timeWindow = tw, opt_filter = Some (''package:'' @ p), opt_process = None \<rparr>"
    using assms by (simp add: effectiveFilter_def truthy_def valueOf_def)
  show "(truthy (opt_filter \<lparr> opt_timeWindow = tw, opt_filter = None, opt_process = Some p \<rparr>)
       \<and> startsWith (valueOf (opt_filter \<lparr> opt_timeWindow = tw, opt_filter = None, opt_process = Some p \<rparr>))
            ''package:mine'')
      = (truthy (opt_filter \<lparr> opt_timeWindow = tw, opt_filter = Some (''package:'' @ p), opt_process = None \<rparr>)
       \<and> startsWith (valueOf (opt_filter \<lparr> opt_timeWindow = tw, opt_filter = Some (''package:'' @ p),
            opt_process = None \<rparr>)) ''package:mine'')"
    using assms(2) by (simp add: valueOf_def truthy_def)
qed simp

text \<open>
  Claim C8 fails on the code for a process identifier that starts with \<open>mine\<close>. The filter
  expression is parsed from the folded filter, and the restriction to user packages is
  then applied by the filter as given, not by the folded one. On an output of the one line
  \<open>system_server: error\<close>, the process \<open>mine\<close> with the filter \<open>error\<close> keeps the line, and the
  filter \<open>package:mine error\<close> drops it; the process \<open>mine\<close> alone keeps
  \<open>system_server: started\<close>, and the filter \<open>package:mine\<close> drops it; the process \<open>mine.app\<close>
  with the filter \<open>error\<close> keeps \<open>com.android.app error\<close>, and the filter
  \<open>package:mine.app error\<close> drops it.
\<close>

theorem process_fold_divergence:
  "getDeviceLogs (\<lambda>args. Inr ''system_server: error'') 0
     \<lparr> opt_timeWindow = None, opt_filter = Some ''error'', opt_process = Some ''mine'' \<rparr>
     = Inr ''system_server: error''
   \<and> getDeviceLogs (\<lambda>args. Inr ''system_server: error'') 0
     \<lparr> opt_timeWindow = None, opt_filter = Some ''package:mine error'', opt_process = None \<rparr>
     = Inr []
   \<and> getDeviceLogs (\<lambda>args. Inr ''system_server: started'') 0
     \<lparr> opt_timeWindow = None, opt_filter = None, opt_process = Some ''mine'' \<rparr>
     = Inr ''system_server: started''
   \<and> getDeviceLogs (\<lambda>args. Inr ''system_server: started'') 0
     \<lparr> opt_timeWindow = None, opt_filter = Some ''package:mine'', opt_process = None \<rparr>
     = Inr []
   \<and> getDeviceLogs (\<lambda>args. Inr ''com.android.app error'') 0
     \<lparr> opt_timeWindow = None, opt_filter = Some ''error'', opt_process = Some ''mine.app'' \<rparr>
     = Inr ''com.android.app error''
   \<and> getDeviceLogs (\<lambda>args. Inr ''com.android.app error'') 0
     \<lparr> opt_timeWindow = None, opt_filter = Some ''package:mine.app error'', opt_process = None \<rparr>
     = Inr []"
  by (simp add: logs_eval)

section \<open>The time window\<close>













section \<open>The tools\<close>

lemma requireRobot_None: "and_then (requireRobot None) f = ([], Inl noDeviceSelected)"
  by (simp add: requireRobot_def and_then_def throw_def)

lemma requireRobot_Some: "and_then (requireRobot (Some r)) f = f r"
  by (simp add: requireRobot_def and_then_def return_def split: prod.splits sum.splits)

lemma call_and_then:
  "and_then (call eff answer) f =
     (case answer of Inl e \<Rightarrow> ([eff], Inl e) | Inr v \<Rightarrow> (eff # fst (f v), snd (f v)))"
  by (simp add: call_def and_then_def split: sum.splits prod.splits)

text \<open>
  Claim C2. Every tool of the control interface (list apps, launch and terminate an app,
  screen size, tap, list elements, press a button, open a URL, swipe, type keys,
  screenshot, set and get the orientation, tap an element, logs), called with whatever
  arguments while no device is selected, throws the actionable error \<open>No device selected\<close>,
  and has no effect on any device.
\<close>

theorem no_device_selected:
  "invoke env None c =
     ([], Inl (ActionableError
                 [Lit ''No device selected. Use the mobile_use_device tool to select a device.'']))"
proof -
  have "invoke env None c = ([], Inl noDeviceSelected)"
    by (cases c)
       (simp_all only: invoke.simps mobile_list_apps_def mobile_launch_app_def
          mobile_terminate_app_def mobile_get_screen_size_def
          mobile_click_on_screen_at_coordinates_def mobile_list_elements_on_screen_def
          mobile_press_button_def mobile_open_url_def swipe_on_screen_def mobile_type_keys_def
          mobile_take_screenshot_def mobile_set_orientation_def mobile_get_orientation_def
          mobile_tap_element_def mobile_get_log_def requireRobot_None)
  then show ?thesis by (simp only: noDeviceSelected_def)
qed

section \<open>Finding an element and tapping it\<close>

lemma search_field:
  "(truthy f \<and> trim (valueOf f) \<noteq> [])
     \<and> (truthy f \<and> str_includes (toLowerCase (valueOf f)) (toLowerCase query))
   \<longleftrightarrow> (\<exists>s. f = Some s \<and> trim s \<noteq> [] \<and> str_includes (toLowerCase s) (toLowerCase query))"
  by (cases f) (auto simp: truthy_def valueOf_def)

lemma matchesQuery_fields:
  "matchesQuery query e \<longleftrightarrow>
     (\<exists>f. (f = el_text e \<or> f = Some (el_label e) \<or> f = el_name e \<or> f = el_value e
            \<or> f = el_identifier e)
        \<and> (\<exists>s. f = Some s \<and> trim s \<noteq> [] \<and> str_includes (toLowerCase s) (toLowerCase query)))"
proof -
  have "matchesQuery query e \<longleftrightarrow>
     (\<exists>f. (f = el_text e \<or> f = Some (el_label e) \<or> f = el_name e \<or> f = el_value e
            \<or> f = el_identifier e)
        \<and> ((truthy f \<and> trim (valueOf f) \<noteq> [])
           \<and> (truthy f \<and> str_includes (toLowerCase (valueOf f)) (toLowerCase query))))"
    unfolding matchesQuery_def searchFields_def list_ex_iff set_filter
    by (simp only: set_simps mem_Collect_eq insert_iff empty_iff Bex_def) blast
  then show ?thesis by (simp only: search_field)
qed

lemma matchesQuery_iff: "matchesQuery query e \<longleftrightarrow> nonBlankFieldContains query e"
  unfolding matchesQuery_fields nonBlankFieldContains_def by blast

lemma matchesQuery_eq: "matchesQuery query = nonBlankFieldContains query"
  by (rule ext) (rule matchesQuery_iff)

lemma tap_none:
  assumes "r_getElementsOnScreen r = Inr elements" and "filter (matchesQuery query) elements = []"
  shows "mobile_tap_element (Some r) query =
     ([Robot_getElementsOnScreen], Inl (noElementFound query elements))"
  using assms
  by (simp add: mobile_tap_element_def requireRobot_Some call_and_then throw_def)

lemma tap_many:
  assumes "r_getElementsOnScreen r = Inr elements"
    and "2 \<le> length (filter (matchesQuery query) elements)"
  shows "mobile_tap_element (Some r) query =
     ([Robot_getElementsOnScreen],
      Inl (multipleElementsFound query (filter (matchesQuery query) elements)))"
proof -
  from assms(2) have "filter (matchesQuery query) elements \<noteq> []"
    and "1 < length (filter (matchesQuery query) elements)"
    by auto
  with assms(1) show ?thesis
    by (simp add: mobile_tap_element_def requireRobot_Some call_and_then throw_def Let_def)
qed

lemma tap_one:
  assumes "r_getElementsOnScreen r = Inr elements" and "filter (matchesQuery query) elements = [m]"
  shows "mobile_tap_element (Some r) query =
     ([Robot_getElementsOnScreen, Robot_tap (centerX m) (centerY m)],
      (case r_tap r (centerX m) (centerY m) of
         Inl e \<Rightarrow> Inl e
       | Inr u \<Rightarrow> Inr (Text [Lit (''Tapped element '' @ dquote @ String_of (displayField m) @ dquote
                                   @ '' at coordinates: ''),
                              Num (centerX m), Lit '', '', Num (centerY m)])))"
  using assms
  by (simp add: mobile_tap_element_def requireRobot_Some call_and_then return_def split: sum.splits)

lemma displayField_first:
  "(if truthy (displayField e) then [valueOf (displayField e)] else [])
     = (case find (\<lambda>s. s \<noteq> []) (fieldValues e) of None \<Rightarrow> [] | Some s \<Rightarrow> [s])"
  by (simp add: displayField_def fieldValues_def or_else_def truthy_def valueOf_def split: option.splits)

lemma display_list:
  "map valueOf (filter truthy (map displayField elements)) = firstNonEmptyFields elements"
proof (induction elements)
  case Nil
  show ?case by (simp add: firstNonEmptyFields_def)
next
  case (Cons e es)
  have "map valueOf (filter truthy (map displayField (e # es)))
      = (if truthy (displayField e) then [valueOf (displayField e)] else [])
        @ map valueOf (filter truthy (map displayField es))"
    by simp
  also have "\<dots> = (case find (\<lambda>s. s \<noteq> []) (fieldValues e) of None \<Rightarrow> [] | Some s \<Rightarrow> [s])
        @ firstNonEmptyFields es"
    by (simp only: displayField_first Cons.IH)
  also have "\<dots> = firstNonEmptyFields (e # es)"
    by (simp add: firstNonEmptyFields_def)
  finally show ?case .
qed

text \<open>
  Claim C1, as amended. Let the device show the element list \<open>elements\<close>, and call an
  element a match when one of its text, label, name, value and identifier is not blank
  (not empty once white space is trimmed) and contains the query, cases ignored. With no
  match, the tool reads the elements, taps nothing, and throws the actionable error that
  lists, for each element that has one, the first of these fields that is not empty. With
  two or more matches it taps nothing and throws the actionable error that lists every
  match with its type, its five fields, its centre and its rect. With exactly one match
  \<open>m\<close> it taps once, at \<open>(rect.x + rect.width / 2, rect.y + rect.height / 2)\<close>, and answers
  with these coordinates unless the tap throws.
\<close>

theorem tap_element_by_match_count:
  assumes "r_getElementsOnScreen r = Inr elements"
  shows "(filter (nonBlankFieldContains query) elements = [] \<longrightarrow>
            mobile_tap_element (Some r) query =
              ([Robot_getElementsOnScreen],
               Inl (ActionableError
                 [Lit (''No element found matching query: '' @ dquote @ query @ dquote
                       @ ''. Available elements: ''
                       @ join '', '' (firstNonEmptyFields elements))])))
       \<and> (2 \<le> length (filter (nonBlankFieldContains query) elements) \<longrightarrow>
            mobile_tap_element (Some r) query =
              ([Robot_getElementsOnScreen],
               Inl (ActionableError
                 [Lit (''Multiple elements found matching query: '' @ dquote @ query @ dquote
                       @ ''. Found ''),
                  Num (of_nat (length (filter (nonBlankFieldContains query) elements))),
                  Lit ('' matches:'' @ newline),
                  StringifyPretty
                    (JArr (map matchJson (filter (nonBlankFieldContains query) elements)))])))
       \<and> (filter (nonBlankFieldContains query) elements = [m] \<longrightarrow>
            mobile_tap_element (Some r) query =
              ([Robot_getElementsOnScreen,
                Robot_tap (rect_x (el_rect m) + rect_width (el_rect m) / 2)
                          (rect_y (el_rect m) + rect_height (el_rect m) / 2)],
               (case r_tap r (rect_x (el_rect m) + rect_width (el_rect m) / 2)
                             (rect_y (el_rect m) + rect_height (el_rect m) / 2) of
                  Inl e \<Rightarrow> Inl e
                | Inr u \<Rightarrow>
                    Inr (Text [Lit (''Tapped element '' @ dquote @ String_of (displayField m) @ dquote
                                    @ '' at coordinates: ''),
                               Num (rect_x (el_rect m) + rect_width (el_rect m) / 2), Lit '', '',
                               Num (rect_y (el_rect m) + rect_height (el_rect m) / 2)]))))
       \<and> matchJson m =
           JObj [(''type'', JStr (el_type m)),
                 (''text'', opt_json (el_text m)),
                 (''label'', JStr (el_label m)),
                 (''name'', opt_json (el_name m)),
                 (''value'', opt_json (el_value m)),
                 (''identifier'', opt_json (el_identifier m)),
                 (''coordinates'',
                    JObj [(''x'', JNum (rect_x (el_rect m) + rect_width (el_rect m) / 2)),
                          (''y'', JNum (rect_y (el_rect m) + rect_height (el_rect m) / 2))]),
                 (''rect'',
                    JObj [(''x'', JNum (rect_x (el_rect m))), (''y'', JNum (rect_y (el_rect m))),
                          (''width'', JNum (rect_width (el_rect m))),
                          (''height'', JNum (rect_height (el_rect m)))])]"
proof (intro conjI impI)
  assume "filter (nonBlankFieldContains query) elements = []"
  then have "filter (matchesQuery query) elements = []"
    by (simp only: matchesQuery_eq)
  with assms have "mobile_tap_element (Some r) query =
     ([Robot_getElementsOnScreen], Inl (noElementFound query elements))"
    by (rule tap_none)
  then show "mobile_tap_element (Some r) query =
              ([Robot_getElementsOnScreen],
               Inl (ActionableError
                 [Lit (''No element found matching query: '' @ dquote @ query @ dquote
                       @ ''. Available elements: ''
                       @ join '', '' (firstNonEmptyFields elements))]))"
    by (simp only: noElementFound_def display_list)
next
  assume "2 \<le> length (filter (nonBlankFieldContains query) elements)"
  then have "2 \<le> length (filter (matchesQuery query) elements)"
    by (simp only: matchesQuery_eq)
  with assms have "mobile_tap_element (Some r) query =
     ([Robot_getElementsOnScreen],
      Inl (multipleElementsFound query (filter (matchesQuery query) elements)))"
    by (rule tap_many)
  then show "mobile_tap_element (Some r) query =
              ([Robot_getElementsOnScreen],
               Inl (ActionableError
                 [Lit (''Multiple elements found matching query: '' @ dquote @ query @ dquote
                       @ ''. Found ''),
                  Num (of_nat (length (filter (nonBlankFieldContains query) elements))),
                  Lit ('' matches:'' @ newline),
                  StringifyPretty
                    (JArr (map matchJson (filter (nonBlankFieldContains query) elements)))]))"
    by (simp only: multipleElementsFound_def matchesQuery_eq)
next
  assume "filter (nonBlankFieldContains query) elements = [m]"
  then have "filter (matchesQuery query) elements = [m]"
    by (simp only: matchesQuery_eq)
  with assms have "mobile_tap_element (Some r) query =
     ([Robot_getElementsOnScreen, Robot_tap (centerX m) (centerY m)],
      (case r_tap r (centerX m) (centerY m) of
         Inl e \<Rightarrow> Inl e
       | Inr u \<Rightarrow> Inr (Text [Lit (''Tapped element '' @ dquote @ String_of (displayField m) @ dquote
                                   @ '' at coordinates: ''),
                              Num (centerX m), Lit '', '', Num (centerY m)])))"
    by (rule tap_one)
  then show "mobile_tap_element (Some r) query =
              ([Robot_getElementsOnScreen,
                Robot_tap (rect_x (el_rect m) + rect_width (el_rect m) / 2)
                          (rect_y (el_rect m) + rect_height (el_rect m) / 2)],
               (case r_tap r (rect_x (el_rect m) + rect_width (el_rect m) / 2)
                             (rect_y (el_rect m) + rect_height (el_rect m) / 2) of
                  Inl e \<Rightarrow> Inl e
                | Inr u \<Rightarrow>
                    Inr (Text [Lit (''Tapped element '' @ dquote @ String_of (displayField m) @ dquote
                                    @ '' at coordinates: ''),
                               Num (rect_x (el_rect m) + rect_width (el_rect m) / 2), Lit '', '',
                               Num (rect_y (el_rect m) + rect_height (el_rect m) / 2)])))"
    by (simp only: centerX_def centerY_def)
next
  show "matchJson m =
           JObj [(''type'', JStr (el_type m)),
                 (''text'', opt_json (el_text m)),
                 (''label'', JStr (el_label m)),
                 (''name'', opt_json (el_name m)),
                 (''value'', opt_json (el_value m)),
                 (''identifier'', opt_json (el_identifier m)),
                 (''coordinates'',
                    JObj [(''x'', JNum (rect_x (el_rect m) + rect_width (el_rect m) / 2)),
                          (''y'', JNum (rect_y (el_rect m) + rect_height (el_rect m) / 2))]),
                 (''rect'',
                    JObj [(''x'', JNum (rect_x (el_rect m))), (''y'', JNum (rect_y (el_rect m))),
                          (''width'', JNum (rect_width (el_rect m))),
                          (''height'', JNum (rect_height (el_rect m)))])]"
    by (simp only: matchJson_def centerX_def centerY_def)
qed

lemmas form_eval = labelledSubmit_def identifiedSubmit_def cancelButton_def blankText_def
  firstNonEmptyFields_def fieldValues_def

lemmas match_eval = matchesQuery_def searchFields_def truthy_def valueOf_def trim_def isSpace_def
  toLowerCase_def toLowerChar_def elementAt_def

theorem tap_element_by_match_count_witness:
  "r_getElementsOnScreen (screenWith [labelledSubmit, identifiedSubmit])
     = Inr [labelledSubmit, identifiedSubmit]
   \<and> filter (nonBlankFieldContains ''submit'') [labelledSubmit, identifiedSubmit]
     = [labelledSubmit, identifiedSubmit]
   \<and> mobile_tap_element (Some (screenWith [labelledSubmit, identifiedSubmit])) ''submit'' =
       ([Robot_getElementsOnScreen],
        Inl (ActionableError
          [Lit (''Multiple elements found matching query: '' @ dquote @ ''submit'' @ dquote
                @ ''. Found ''),
           Num 2,
           Lit ('' matches:'' @ newline),
           StringifyPretty (JArr [matchJson labelledSubmit, matchJson identifiedSubmit])]))
   \<and> centerX labelledSubmit = 50 \<and> centerY labelledSubmit = 20
   \<and> centerX identifiedSubmit = 100 \<and> centerY identifiedSubmit = 80
   \<and> filter (nonBlankFieldContains ''cancel'') [labelledSubmit, cancelButton] = [cancelButton]
   \<and> mobile_tap_element (Some (screenWith [labelledSubmit, cancelButton])) ''cancel'' =
       ([Robot_getElementsOnScreen, Robot_tap 100 150],
        Inr (Text [Lit (''Tapped element '' @ dquote @ ''Cancel'' @ dquote @ '' at coordinates: ''),
                   Num 100, Lit '', '', Num 150]))
   \<and> filter (nonBlankFieldContains ''help'') [labelledSubmit, cancelButton] = []
   \<and> mobile_tap_element (Some (screenWith [labelledSubmit, cancelButton])) ''help'' =
       ([Robot_getElementsOnScreen],
        Inl (ActionableError
          [Lit (''No element found matching query: '' @ dquote @ ''help'' @ dquote
                @ ''. Available elements: '' @ ''Submit Form, Cancel'')]))"
proof -
  have g: "r_getElementsOnScreen (screenWith es) = Inr es" for es
    by (simp add: screenWith_def)
  have t: "r_tap (screenWith es) a b = Inr ()" for es a b
    by (simp add: screenWith_def)
  have f2: "filter (nonBlankFieldContains ''submit'') [labelledSubmit, identifiedSubmit]
     = [labelledSubmit, identifiedSubmit]"
    unfolding matchesQuery_eq [symmetric] by (simp add: match_eval form_eval)
  have f1: "filter (nonBlankFieldContains ''cancel'') [labelledSubmit, cancelButton] = [cancelButton]"
    unfolding matchesQuery_eq [symmetric] by (simp add: match_eval form_eval)
  have f0: "filter (nonBlankFieldContains ''help'') [labelledSubmit, cancelButton] = []"
    unfolding matchesQuery_eq [symmetric] by (simp add: match_eval form_eval)
  have c: "centerX labelledSubmit = 50" "centerY labelledSubmit = 20"
    "centerX identifiedSubmit = 100" "centerY identifiedSubmit = 80"
    "rect_x (el_rect cancelButton) + rect_width (el_rect cancelButton) / 2 = 100"
    "rect_y (el_rect cancelButton) + rect_height (el_rect cancelButton) / 2 = 150"
    by (simp_all add: centerX_def centerY_def form_eval elementAt_def)
  have d: "String_of (displayField cancelButton) = ''Cancel''"
    "firstNonEmptyFields [labelledSubmit, cancelButton] = [''Submit Form'', ''Cancel'']"
    by (simp_all add: form_eval elementAt_def displayField_def or_else_def truthy_def String_of_def
        valueOf_def)
  show ?thesis
    using tap_element_by_match_count [where r = "screenWith [labelledSubmit, identifiedSubmit]"
        and elements = "[labelledSubmit, identifiedSubmit]" and query = "''submit''"
        and m = labelledSubmit]
      tap_element_by_match_count [where r = "screenWith [labelledSubmit, cancelButton]"
        and elements = "[labelledSubmit, cancelButton]" and query = "''cancel''"
        and m = cancelButton]
      tap_element_by_match_count [where r = "screenWith [labelledSubmit, cancelButton]"
        and elements = "[labelledSubmit, cancelButton]" and query = "''help''"
        and m = cancelButton]
    by (simp only: f2 f1 f0 g t c d) simp
qed

text \<open>
  Claim C1 as stated fails for a field of white space only: an element whose text is one
  space has a field that is not empty and contains the query of one space, and it is the
  only element, yet the tool taps nothing and throws the error of no match.
\<close>

theorem tap_element_by_match_count_counterexample:
  "nonEmptyFieldContains '' '' blankText
   \<and> mobile_tap_element (Some (screenWith [blankText])) '' '' =
       ([Robot_getElementsOnScreen],
        Inl (ActionableError
          [Lit (''No element found matching query: '' @ dquote @ '' '' @ dquote
                @ ''. Available elements: '' @ '' '')]))"
proof
  have "el_text blankText = Some '' '' \<and> '' '' \<noteq> []
      \<and> str_includes (toLowerCase '' '') (toLowerCase '' '')"
    by (simp add: blankText_def elementAt_def toLowerCase_def toLowerChar_def)
  then show "nonEmptyFieldContains '' '' blankText"
    unfolding nonEmptyFieldContains_def by blast
  have g: "r_getElementsOnScreen (screenWith [blankText]) = Inr [blankText]"
    by (simp add: screenWith_def)
  have f: "filter (matchesQuery '' '') [blankText] = []"
    by (simp add: match_eval blankText_def)
  have d: "firstNonEmptyFields [blankText] = ['' '']"
    by (simp add: form_eval elementAt_def valueOf_def)
  have "mobile_tap_element (Some (screenWith [blankText])) '' '' =
     ([Robot_getElementsOnScreen], Inl (noElementFound '' '' [blankText]))"
    using g f by (rule tap_none)
  then show "mobile_tap_element (Some (screenWith [blankText])) '' '' =
       ([Robot_getElementsOnScreen],
        Inl (ActionableError
          [Lit (''No element found matching query: '' @ dquote @ '' '' @ dquote
                @ ''. Available elements: '' @ '' '')]))"
    by (simp only: noElementFound_def display_list d join.simps)
qed


end
